theory Spec2Isabelle
  imports Complex_Main "HOL-Library.Char_ord" "HOL-Library.List_Lexorder"
begin

section \<open>BalancerTracker: pool records, reward decomposition, overlay APR and the JSON stores\<close>

text \<open>
  A shallow embedding of \<^verbatim>\<open>data_store.py\<close> and of the parsing and overlay code of
  \<^verbatim>\<open>balancer_tracker.py\<close>.

  Conventions of the embedding:
  \<^item> Python floats are idealised as \<^typ>\<open>real\<close>: no rounding error, no NaN, no infinity.
  \<^item> Python strings are \<^typ>\<open>string\<close>, a list of 8-bit characters; \<^verbatim>\<open>str.lower\<close> and
    \<^verbatim>\<open>str.upper\<close> change the ASCII letters only.
  \<^item> An untyped payload dict is a record whose fields are \<^typ>\<open>'a option\<close> where the code
    reads the key with \<^verbatim>\<open>.get\<close>: \<open>None\<close> is a missing key (or a JSON null).
  \<^item> An argument that the code tests for truthiness (\<^verbatim>\<open>if not pool_data\<close>) is an
    option: \<open>None\<close> stands for Python's None or the empty dict.
  \<^item> The network and the clock are inputs: a \<open>network\<close> record of responses, a timestamp
    string \<open>now\<close>.
  \<^item> A file is \<open>Missing\<close>, \<open>Malformed\<close> (not JSON) or \<open>Content\<close> of a document;
    \<^verbatim>\<open>json.dump\<close> followed by \<^verbatim>\<open>json.load\<close> gives the document back.
\<close>

subsection \<open>Python primitives\<close>

datatype py_error = ZeroDivisionError

definition py_div :: "real \<Rightarrow> real \<Rightarrow> py_error + real" where
  "py_div a b = (if b = 0 then Inl ZeroDivisionError else Inr (a / b))"

text \<open>Truthiness of an optional number: None and 0 are falsy.\<close>

definition truthy :: "real option \<Rightarrow> bool" where
  "truthy p = (case p of None \<Rightarrow> False | Some v \<Rightarrow> v \<noteq> 0)"

text \<open>\<^verbatim>\<open>float(d.get(k, 0) or 0)\<close>\<close>

definition float_or_0 :: "real option \<Rightarrow> real" where
  "float_or_0 v = (case v of None \<Rightarrow> 0 | Some x \<Rightarrow> x)"

text \<open>\<^verbatim>\<open>d.get(k, default)\<close>\<close>

definition get_or :: "'a option \<Rightarrow> 'a \<Rightarrow> 'a" where
  "get_or v d = (case v of None \<Rightarrow> d | Some x \<Rightarrow> x)"

text \<open>\<^verbatim>\<open>round(x, n)\<close>: to the nearest multiple of \<open>10\<^sup>-\<^sup>n\<close>, a tie to the even one.\<close>

definition round_half_even :: "real \<Rightarrow> int" where
  "round_half_even y =
     (let f = \<lfloor>y\<rfloor>; d = y - of_int f
      in if d < 1 / 2 then f else if 1 / 2 < d then f + 1 else if even f then f else f + 1)"

definition py_round :: "real \<Rightarrow> nat \<Rightarrow> real" where
  "py_round x n = of_int (round_half_even (x * 10 ^ n)) / 10 ^ n"

text \<open>\<^verbatim>\<open>xs[i:]\<close>, where a negative \<open>i\<close> counts from the end.\<close>

definition py_slice_from :: "int \<Rightarrow> 'a list \<Rightarrow> 'a list" where
  "py_slice_from i xs =
     (if 0 \<le> i then drop (nat i) xs else drop (nat (int (length xs) + i)) xs)"

definition lower_char :: "char \<Rightarrow> char" where
  "lower_char c =
     (case map_of (zip ''ABCDEFGHIJKLMNOPQRSTUVWXYZ'' ''abcdefghijklmnopqrstuvwxyz'') c of
        Some d \<Rightarrow> d | None \<Rightarrow> c)"

definition upper_char :: "char \<Rightarrow> char" where
  "upper_char c =
     (case map_of (zip ''abcdefghijklmnopqrstuvwxyz'' ''ABCDEFGHIJKLMNOPQRSTUVWXYZ'') c of
        Some d \<Rightarrow> d | None \<Rightarrow> c)"

definition lower :: "string \<Rightarrow> string" where
  "lower s = map lower_char s"

definition upper :: "string \<Rightarrow> string" where
  "upper s = map upper_char s"

text \<open>The character class \<^verbatim>\<open>[a-z0-9]\<close>.\<close>

definition is_lower_alnum :: "char \<Rightarrow> bool" where
  "is_lower_alnum c = (c \<in> set ''abcdefghijklmnopqrstuvwxyz0123456789'')"

text \<open>
  \<^verbatim>\<open>re.sub(r'[^a-z0-9]+', '_', s)\<close>: scanning from the left, a character of the class is
  copied, and a maximal run of other characters is replaced by one underscore.
\<close>

function re_sub_nonalnum :: "string \<Rightarrow> string" where
  "re_sub_nonalnum [] = []"
| "re_sub_nonalnum (c # cs) =
     (if is_lower_alnum c then c # re_sub_nonalnum cs
      else CHR ''_'' # re_sub_nonalnum (dropWhile (\<lambda>d. \<not> is_lower_alnum d) cs))"
  by pat_completeness auto
termination
  by (relation "measure length") (auto simp: length_dropWhile_le less_Suc_eq_le)

text \<open>\<^verbatim>\<open>s.strip('_')\<close>\<close>

definition strip_underscores :: "string \<Rightarrow> string" where
  "strip_underscores s =
     rev (dropWhile (\<lambda>c. c = CHR ''_'') (rev (dropWhile (\<lambda>c. c = CHR ''_'') s)))"

subsection \<open>\<^verbatim>\<open>data_store.py\<close>: the pool record\<close>

record other_reward =
  token :: string
  apy :: real

text \<open>
  \<open>coin_ratios\<close> holds the two arguments of the display string
  \<^verbatim>\<open>f"{symbol}: {ratio_pct:.1f}%"\<close> instead of the formatted text.
\<close>

record PoolData =
  name :: string
  chain :: string
  address :: string
  pool_id :: string
  tvl :: real
  base_apy :: real
  bal_rewards_apy :: "real list"
  other_rewards :: "other_reward list"
  total_apy :: real
  coins :: "string list"
  coin_ratios :: "(string \<times> real) list"
  coin_amounts :: "real list"
  coin_prices :: "real list"
  aura_apy :: "real option"
  aura_tvl :: "real option"
  aura_boost :: "real option"
  aura_staking_contract :: "string option"

subsection \<open>\<^verbatim>\<open>data_store.py\<close>: the snapshot file\<close>

record bal_rewards_json =
  b_min :: "real option"
  b_max :: "real option"

text \<open>
  \<open>d_tvl_formatted\<close> holds the scaled amount and the suffix that
  \<^verbatim>\<open>_format_currency\<close> prints with two decimals.
\<close>

record data_json =
  d_tvl :: "real option"
  d_tvl_formatted :: "(real \<times> string) option"
  d_base_apy :: "real option"
  d_bal_rewards :: "bal_rewards_json option"
  d_other_rewards :: "other_reward list option"
  d_total_apy :: "real option"

record tokens_json =
  t_coins :: "string list option"
  t_ratios :: "(string \<times> real) list option"
  t_amounts :: "real list option"
  t_prices :: "real list option"

record aura_json =
  a_apy :: "real option"
  a_tvl :: "real option"
  a_boost :: "real option"
  a_staking_contract :: "string option"

record pool_json =
  j_id :: "string option"
  j_name :: "string option"
  j_chain :: "string option"
  j_address :: "string option"
  j_pool_id :: "string option"
  j_data :: "data_json option"
  j_tokens :: "tokens_json option"
  j_aura :: "aura_json option"

record metadata_json =
  generated_at :: string
  source :: string
  total_pools :: nat
  chains :: "string list"
  has_aura :: bool

record snapshot_doc =
  version :: string
  metadata :: metadata_json
  pools :: "pool_json list"

subsection \<open>\<^verbatim>\<open>data_store.py\<close>: the history file\<close>

record snapshot =
  s_timestamp :: string
  s_tvl :: real
  s_base_apy :: real
  s_bal_rewards_min :: real
  s_bal_rewards_max :: real
  s_total_apy :: real
  s_aura_apy :: "real option"
  s_aura_tvl :: "real option"

record pool_meta =
  m_name :: string
  m_chain :: string
  m_address :: string
  m_pool_id :: string

record pool_history =
  h_metadata :: pool_meta
  h_snapshots :: "snapshot list"

record history_doc =
  h_version :: string
  h_last_updated :: string
  h_pools :: "string \<rightharpoonup> pool_history"

datatype 'a file_state = Missing | Malformed | Content 'a

record PoolDataStore =
  data_dir :: string
  latest_file :: "snapshot_doc file_state"
  history_file :: "history_doc file_state"

definition latest_path :: "PoolDataStore \<Rightarrow> string" where
  "latest_path st = data_dir st @ ''/balancer_pools_latest.json''"

definition history_path :: "PoolDataStore \<Rightarrow> string" where
  "history_path st = data_dir st @ ''/balancer_pools_history.json''"

definition generate_pool_key :: "PoolData \<Rightarrow> string" where
  "generate_pool_key pool =
     (let name1 = lower (name pool);
          name2 = strip_underscores (re_sub_nonalnum name1)
      in chain pool @ ''_'' @ name2)"

definition format_currency :: "real \<Rightarrow> real \<times> string" where
  "format_currency amount =
     (if amount \<ge> 1000000000 then (amount / 1000000000, ''B'')
      else if amount \<ge> 1000000 then (amount / 1000000, ''M'')
      else if amount \<ge> 1000 then (amount / 1000, ''K'')
      else (amount, ''''))"

definition pool_to_json :: "PoolData \<Rightarrow> pool_json" where
  "pool_to_json pool =
     \<lparr> j_id = Some (generate_pool_key pool),
       j_name = Some (name pool),
       j_chain = Some (chain pool),
       j_address = Some (address pool),
       j_pool_id = Some (pool_id pool),
       j_data = Some
         \<lparr> d_tvl = Some (py_round (tvl pool) 2),
           d_tvl_formatted = Some (format_currency (tvl pool)),
           d_base_apy = Some (py_round (base_apy pool) 4),
           d_bal_rewards = Some
             \<lparr> b_min = Some (if bal_rewards_apy pool \<noteq> []
                              then py_round (bal_rewards_apy pool ! 0) 4 else 0),
               b_max = Some (if length (bal_rewards_apy pool) > 1
                              then py_round (bal_rewards_apy pool ! 1) 4 else 0) \<rparr>,
           d_other_rewards = Some (other_rewards pool),
           d_total_apy = Some (py_round (total_apy pool) 4) \<rparr>,
       j_tokens = Some
         \<lparr> t_coins = Some (coins pool),
           t_ratios = Some (coin_ratios pool),
           t_amounts = Some (map (\<lambda>a. py_round a 6) (coin_amounts pool)),
           t_prices = Some (map (\<lambda>p. py_round p 4) (coin_prices pool)) \<rparr>,
       j_aura =
         (if aura_apy pool \<noteq> None then Some
            \<lparr> a_apy = map_option (\<lambda>v. py_round v 4) (aura_apy pool),
              a_tvl = map_option (\<lambda>v. py_round v 2) (aura_tvl pool),
              a_boost = map_option (\<lambda>v. py_round v 2) (aura_boost pool),
              a_staking_contract = aura_staking_contract pool \<rparr>
          else None) \<rparr>"

text \<open>
  \<^verbatim>\<open>_json_to_pool\<close>. On this typed document no \<^verbatim>\<open>.get\<close> raises, so the
  \<^verbatim>\<open>except\<close> branch (result None) is not reached and the result is always \<open>Some\<close>.
\<close>

definition json_to_pool :: "pool_json \<Rightarrow> PoolData option" where
  "json_to_pool data =
     (let pool_data = get_or (j_data data)
            \<lparr> d_tvl = None, d_tvl_formatted = None, d_base_apy = None,
              d_bal_rewards = None, d_other_rewards = None, d_total_apy = None \<rparr>;
          tokens = get_or (j_tokens data)
            \<lparr> t_coins = None, t_ratios = None, t_amounts = None, t_prices = None \<rparr>;
          aura = get_or (j_aura data)
            \<lparr> a_apy = None, a_tvl = None, a_boost = None, a_staking_contract = None \<rparr>;
          bal_rewards = get_or (d_bal_rewards pool_data) \<lparr> b_min = None, b_max = None \<rparr>
      in Some
        \<lparr> name = get_or (j_name data) ''Unknown'',
          chain = get_or (j_chain data) ''ethereum'',
          address = get_or (j_address data) '''',
          pool_id = get_or (j_pool_id data) '''',
          tvl = get_or (d_tvl pool_data) 0,
          base_apy = get_or (d_base_apy pool_data) 0,
          bal_rewards_apy = [get_or (b_min bal_rewards) 0, get_or (b_max bal_rewards) 0],
          other_rewards = get_or (d_other_rewards pool_data) [],
          total_apy = get_or (d_total_apy pool_data) 0,
          coins = get_or (t_coins tokens) [],
          coin_ratios = get_or (t_ratios tokens) [],
          coin_amounts = get_or (t_amounts tokens) [],
          coin_prices = get_or (t_prices tokens) [],
          aura_apy = a_apy aura,
          aura_tvl = a_tvl aura,
          aura_boost = a_boost aura,
          aura_staking_contract = a_staking_contract aura \<rparr>)"

text \<open>\<^verbatim>\<open>save\<close> returns the path written, or the empty string when there is nothing to save.\<close>

definition save :: "PoolData list \<Rightarrow> string \<Rightarrow> PoolDataStore \<Rightarrow> string \<times> PoolDataStore" where
  "save pool_data_list now st =
     (if pool_data_list = [] then ('''', st)
      else
        let data =
          \<lparr> version = ''1.0'',
            metadata =
              \<lparr> generated_at = now,
                source = ''BalancerTracker'',
                total_pools = length pool_data_list,
                chains = sort (remdups (map chain pool_data_list)),
                has_aura = list_ex (\<lambda>p. aura_apy p \<noteq> None) pool_data_list \<rparr>,
            pools = map pool_to_json pool_data_list \<rparr>
        in (latest_path st, st\<lparr>latest_file := Content data\<rparr>))"

definition load :: "PoolDataStore \<Rightarrow> PoolData list" where
  "load st =
     (case latest_file st of
        Missing \<Rightarrow> []
      | Malformed \<Rightarrow> []
      | Content data \<Rightarrow> List.map_filter json_to_pool (pools data))"

definition empty_history :: "string \<Rightarrow> history_doc" where
  "empty_history now = \<lparr> h_version = ''1.0'', h_last_updated = now, h_pools = Map.empty \<rparr>"

definition make_snapshot :: "string \<Rightarrow> PoolData \<Rightarrow> snapshot" where
  "make_snapshot timestamp_str pool =
     \<lparr> s_timestamp = timestamp_str,
       s_tvl = py_round (tvl pool) 2,
       s_base_apy = py_round (base_apy pool) 4,
       s_bal_rewards_min =
         (if bal_rewards_apy pool \<noteq> [] then py_round (bal_rewards_apy pool ! 0) 4 else 0),
       s_bal_rewards_max =
         (if length (bal_rewards_apy pool) > 1 then py_round (bal_rewards_apy pool ! 1) 4 else 0),
       s_total_apy = py_round (total_apy pool) 4,
       s_aura_apy = map_option (\<lambda>v. py_round v 4) (aura_apy pool),
       s_aura_tvl = map_option (\<lambda>v. py_round v 2) (aura_tvl pool) \<rparr>"

text \<open>One iteration of the loop of \<^verbatim>\<open>append_history\<close> over the records.\<close>

definition append_one ::
  "string \<Rightarrow> int option \<Rightarrow> (string \<rightharpoonup> pool_history) \<Rightarrow> PoolData \<Rightarrow> (string \<rightharpoonup> pool_history)"
where
  "append_one timestamp_str max_snapshots hp pool =
     (let pool_key = generate_pool_key pool;
          slot = (case hp pool_key of
                    None \<Rightarrow>
                      \<lparr> h_metadata =
                          \<lparr> m_name = name pool, m_chain = chain pool,
                            m_address = address pool, m_pool_id = pool_id pool \<rparr>,
                        h_snapshots = [] \<rparr>
                  | Some s \<Rightarrow> s);
          snapshots = h_snapshots slot @ [make_snapshot timestamp_str pool];
          trimmed =
            (case max_snapshots of
               None \<Rightarrow> snapshots
             | Some m \<Rightarrow>
                 if m \<noteq> 0 \<and> int (length snapshots) > m then py_slice_from (- m) snapshots
                 else snapshots)
      in hp(pool_key \<mapsto> slot\<lparr>h_snapshots := trimmed\<rparr>))"

definition append_history ::
  "PoolData list \<Rightarrow> int option \<Rightarrow> string \<Rightarrow> PoolDataStore \<Rightarrow> string \<times> PoolDataStore"
where
  "append_history pool_data_list max_snapshots now st =
     (if pool_data_list = [] then ('''', st)
      else
        let history0 = (case history_file st of
                          Content h \<Rightarrow> h
                        | Malformed \<Rightarrow> empty_history now
                        | Missing \<Rightarrow> empty_history now);
            history1 = history0\<lparr>h_last_updated := now\<rparr>;
            history2 = history1\<lparr>h_pools :=
                         foldl (append_one now max_snapshots) (h_pools history1) pool_data_list\<rparr>
        in (history_path st, st\<lparr>history_file := Content history2\<rparr>))"

subsection \<open>\<^verbatim>\<open>balancer_tracker.py\<close>: payloads and the network\<close>

record token_info =
  tk_symbol :: "string option"
  tk_decimals :: "int option"

record reward =
  rw_token :: "token_info option"
  rw_rewardRate :: "real option"
  rw_periodFinish :: "int option"

record aura_pool =
  ap_id :: string
  ap_lpToken_id :: "string option"
  ap_totalStaked :: "real option"
  ap_rewardPool :: "string option"
  ap_rewardData :: "reward list"

record apr_item =
  it_type :: "string option"
  it_title :: "string option"
  it_apr :: "real option"
  it_rewardTokenSymbol :: "string option"

record pool_token =
  pt_symbol :: "string option"
  pt_balance :: "real option"
  pt_weight :: "real option"

record dynamic_data =
  dd_totalLiquidity :: "real option"
  dd_totalShares :: "real option"
  dd_aprItems :: "apr_item list"

record raw_pool =
  rp_id :: "string option"
  rp_address :: "string option"
  rp_name :: "string option"
  rp_dynamicData :: "dynamic_data option"
  rp_poolTokens :: "pool_token list option"

text \<open>
  One answer of the price oracle: the decoded JSON object (oracle id, then the value of
  its \<^verbatim>\<open>usd\<close> key, \<open>None\<close> when the key is missing), a rate-limit response (HTTP 429),
  or any other failure.
\<close>

datatype http_result = Ok "(string \<times> real option) list" | RateLimited | Failed

text \<open>
  \<open>subgraph url\<close> is the \<^verbatim>\<open>pools\<close> list of the subgraph's answer (empty when the request
  fails); \<open>coingecko attempt\<close> is the oracle's answer to the request of that attempt.
\<close>

record network =
  subgraph :: "string \<Rightarrow> aura_pool list"
  coingecko :: "nat \<Rightarrow> http_result"

subsection \<open>\<^verbatim>\<open>balancer_tracker.py\<close>: \<^verbatim>\<open>AuraFinanceAPI\<close>\<close>

definition SUBGRAPH_URLS :: "(string \<times> string) list" where
  "SUBGRAPH_URLS =
     [(''ethereum'', ''https://api.subgraph.ormilabs.com/api/public/396b336b-4ed7-469f-a8f4-468e1e26e9a8/subgraphs/aura-finance-mainnet/v0.0.1/''),
      (''mainnet'', ''https://api.subgraph.ormilabs.com/api/public/396b336b-4ed7-469f-a8f4-468e1e26e9a8/subgraphs/aura-finance-mainnet/v0.0.1/''),
      (''arbitrum'', ''https://api.subgraph.ormilabs.com/api/public/396b336b-4ed7-469f-a8f4-468e1e26e9a8/subgraphs/aura-finance-arbitrum/v0.0.1/''),
      (''optimism'', ''https://api.subgraph.ormilabs.com/api/public/396b336b-4ed7-469f-a8f4-468e1e26e9a8/subgraphs/aura-finance-optimism/v0.0.1/''),
      (''base'', ''https://api.subgraph.ormilabs.com/api/public/396b336b-4ed7-469f-a8f4-468e1e26e9a8/subgraphs/aura-finance-base/v0.0.1/''),
      (''polygon'', ''https://api.subgraph.ormilabs.com/api/public/396b336b-4ed7-469f-a8f4-468e1e26e9a8/subgraphs/aura-finance-polygon/v0.0.1/''),
      (''avalanche'', ''https://api.subgraph.ormilabs.com/api/public/396b336b-4ed7-469f-a8f4-468e1e26e9a8/subgraphs/aura-finance-avalanche/v0.0.1/'')]"

definition COINGECKO_IDS :: "(string \<times> string) list" where
  "COINGECKO_IDS =
     [(''AURA'', ''aura-finance''),
      (''BAL'', ''balancer''),
      (''GHO'', ''gho''),
      (''USDC'', ''usd-coin''),
      (''OP'', ''optimism''),
      (''axlOP'', ''optimism'')]"

record AuraFinanceAPI =
  pools_cache :: "string \<rightharpoonup> (string \<rightharpoonup> aura_pool)"
  price_cache :: "string \<rightharpoonup> real"
  prices_fetched :: bool

text \<open>\<^verbatim>\<open>AuraFinanceAPI.__init__\<close>\<close>

definition new_aura_api :: AuraFinanceAPI where
  "new_aura_api = \<lparr> pools_cache = Map.empty, price_cache = Map.empty, prices_fetched = False \<rparr>"

text \<open>The reverse mapping built at the start of \<^verbatim>\<open>fetch_all_prices\<close>.\<close>

definition id_to_symbols :: "string \<rightharpoonup> string list" where
  "id_to_symbols =
     foldl (\<lambda>m (symbol, cg_id).
              m(cg_id \<mapsto> (case m cg_id of None \<Rightarrow> [] | Some l \<Rightarrow> l) @ [symbol]))
       Map.empty COINGECKO_IDS"

text \<open>The loop that maps the fetched prices back to symbols.\<close>

definition store_price :: "(string \<rightharpoonup> real) \<Rightarrow> string \<times> real option \<Rightarrow> (string \<rightharpoonup> real)" where
  "store_price cache entry =
     (case entry of (cg_id, price) \<Rightarrow>
        (case id_to_symbols cg_id of
           Some symbols \<Rightarrow>
             if truthy price then foldl (\<lambda>c symbol. c(symbol \<mapsto> the price)) cache symbols
             else cache
         | None \<Rightarrow> cache))"

definition store_prices :: "(string \<times> real option) list \<Rightarrow> (string \<rightharpoonup> real) \<Rightarrow> (string \<rightharpoonup> real)" where
  "store_prices data cache = foldl store_price cache data"

text \<open>
  The retry loop \<^verbatim>\<open>for attempt in range(max_retries)\<close>: a rate-limited attempt that is not
  the last one sleeps and continues; every other outcome leaves the loop.
\<close>

function fetch_attempts :: "network \<Rightarrow> nat \<Rightarrow> nat \<Rightarrow> AuraFinanceAPI \<Rightarrow> AuraFinanceAPI" where
  "fetch_attempts net max_retries attempt api =
     (if attempt < max_retries then
        (case coingecko net attempt of
           Ok data \<Rightarrow>
             api\<lparr>price_cache := store_prices data (price_cache api), prices_fetched := True\<rparr>
         | RateLimited \<Rightarrow>
             if int attempt < int max_retries - 1
             then fetch_attempts net max_retries (attempt + 1) api
             else api\<lparr>prices_fetched := True\<rparr>
         | Failed \<Rightarrow> api\<lparr>prices_fetched := True\<rparr>)
      else api\<lparr>prices_fetched := True\<rparr>)"
  by pat_completeness auto
termination
  by (relation "measure (\<lambda>(net, max_retries, attempt, api). max_retries - attempt)") auto

declare fetch_attempts.simps [simp del]

definition fetch_all_prices :: "network \<Rightarrow> nat \<Rightarrow> AuraFinanceAPI \<Rightarrow> (string \<rightharpoonup> real) \<times> AuraFinanceAPI" where
  "fetch_all_prices net max_retries api =
     (if prices_fetched api then (price_cache api, api)
      else let api' = fetch_attempts net max_retries 0 api in (price_cache api', api'))"

definition get_token_price :: "network \<Rightarrow> string \<Rightarrow> AuraFinanceAPI \<Rightarrow> real option \<times> AuraFinanceAPI" where
  "get_token_price net symbol api =
     (let api1 = (if \<not> prices_fetched api then snd (fetch_all_prices net 3 api) else api)
      in if price_cache api1 symbol \<noteq> None then (price_cache api1 symbol, api1)
         else if price_cache api1 (upper symbol) \<noteq> None then (price_cache api1 (upper symbol), api1)
         else (None, api1))"

definition get_pools :: "network \<Rightarrow> string \<Rightarrow> AuraFinanceAPI \<Rightarrow> (string \<rightharpoonup> aura_pool) \<times> AuraFinanceAPI" where
  "get_pools net chain_name api =
     (let chain_lower = lower chain_name
      in case pools_cache api chain_lower of
           Some indexed \<Rightarrow> (indexed, api)
         | None \<Rightarrow>
             (case map_of SUBGRAPH_URLS chain_lower of
                None \<Rightarrow> (Map.empty, api)
              | Some url \<Rightarrow>
                  let pool_list = subgraph net url;
                      indexed = foldl (\<lambda>m pool.
                                  let lp_address = lower (get_or (ap_lpToken_id pool) [])
                                  in if lp_address \<noteq> [] then m(lp_address \<mapsto> pool) else m)
                                Map.empty pool_list
                  in (indexed, api\<lparr>pools_cache := (pools_cache api)(chain_lower \<mapsto> indexed)\<rparr>)))"

definition find_pool_by_balancer_address ::
  "network \<Rightarrow> string \<Rightarrow> string \<Rightarrow> AuraFinanceAPI \<Rightarrow> aura_pool option \<times> AuraFinanceAPI"
where
  "find_pool_by_balancer_address net balancer_address chain_name api =
     (case get_pools net chain_name api of
        (indexed, api') \<Rightarrow> (indexed (lower balancer_address), api'))"

record apr_result =
  total_apr :: real
  bal_apr :: real
  aura_apr :: real
  extra_apr :: real

text \<open>The three values read from a reward record at the top of the loop body.\<close>

definition reward_symbol :: "reward \<Rightarrow> string" where
  "reward_symbol r =
     get_or (tk_symbol (get_or (rw_token r) \<lparr> tk_symbol = None, tk_decimals = None \<rparr>)) []"

definition reward_decimals :: "reward \<Rightarrow> int" where
  "reward_decimals r =
     (case tk_decimals (get_or (rw_token r) \<lparr> tk_symbol = None, tk_decimals = None \<rparr>) of
        None \<Rightarrow> 18
      | Some d \<Rightarrow> if d = 0 then 18 else d)"

definition reward_rate :: "reward \<Rightarrow> real" where
  "reward_rate r = float_or_0 (rw_rewardRate r)"

text \<open>
  The loop of \<^verbatim>\<open>calculate_aura_apr\<close> over the reward data, with the three running sums
  and the API object (the price lookup may fetch). Both divisions of the APR formula are
  \<open>py_div\<close>, so a division by zero is a result of the model.
\<close>

fun apr_loop ::
  "network \<Rightarrow> real \<Rightarrow> real \<Rightarrow> reward list \<Rightarrow> real \<times> real \<times> real \<Rightarrow> AuraFinanceAPI
     \<Rightarrow> (py_error + real \<times> real \<times> real) \<times> AuraFinanceAPI"
where
  "apr_loop net tvl_v bal_max_apr [] acc api = (Inr acc, api)"
| "apr_loop net tvl_v bal_max_apr (r # rs) (bal, aura, extra) api =
     (if reward_rate r \<le> 0 then apr_loop net tvl_v bal_max_apr rs (bal, aura, extra) api
      else
        (case get_token_price net (reward_symbol r) api of (token_price, api') \<Rightarrow>
           if \<not> truthy token_price then
             (if reward_symbol r = ''BAL''
              then apr_loop net tvl_v bal_max_apr rs (bal_max_apr, aura, extra) api'
              else apr_loop net tvl_v bal_max_apr rs (bal, aura, extra) api')
           else
             (case py_div (reward_rate r) (10 powi reward_decimals r) of
                Inl e \<Rightarrow> (Inl e, api')
              | Inr q \<Rightarrow>
                  let tokens_per_year = q * (365 * 86400)
                  in (case py_div (tokens_per_year * the token_price) tvl_v of
                        Inl e \<Rightarrow> (Inl e, api')
                      | Inr q2 \<Rightarrow>
                          let apr = q2 * 100
                          in if reward_symbol r = ''BAL''
                             then apr_loop net tvl_v bal_max_apr rs (apr, aura, extra) api'
                             else if reward_symbol r = ''AURA''
                             then apr_loop net tvl_v bal_max_apr rs (bal, apr, extra) api'
                             else apr_loop net tvl_v bal_max_apr rs (bal, aura, extra + apr) api'))))"

text \<open>The result \<open>None\<close> is the empty dict \<^verbatim>\<open>{}\<close>.\<close>

definition calculate_aura_apr ::
  "network \<Rightarrow> aura_pool option \<Rightarrow> real \<Rightarrow> real \<Rightarrow> AuraFinanceAPI
     \<Rightarrow> (py_error + apr_result option) \<times> AuraFinanceAPI"
where
  "calculate_aura_apr net pool tvl_v bal_max_apr api =
     (case pool of
        None \<Rightarrow> (Inr None, api)
      | Some p \<Rightarrow>
          if tvl_v \<le> 0 then (Inr None, api)
          else
            (case apr_loop net tvl_v bal_max_apr (ap_rewardData p) (0, 0, 0) api of
               (Inl e, api') \<Rightarrow> (Inl e, api')
             | (Inr (bal, aura, extra), api') \<Rightarrow>
                 (Inr (Some \<lparr> total_apr = bal + aura + extra, bal_apr = bal,
                              aura_apr = aura, extra_apr = extra \<rparr>), api')))"

definition get_aura_tvl :: "aura_pool option \<Rightarrow> real \<Rightarrow> real" where
  "get_aura_tvl pool bpt_price =
     (case pool of
        None \<Rightarrow> 0
      | Some p \<Rightarrow>
          let total_staked = float_or_0 (ap_totalStaked p);
              staked_tokens = total_staked / 1000000000000000000
          in staked_tokens * bpt_price)"

subsection \<open>\<^verbatim>\<open>balancer_tracker.py\<close>: \<^verbatim>\<open>BalancerTracker._parse_pool\<close>\<close>

record apr_acc =
  acc_base_apy :: real
  acc_bal_base :: real
  acc_bal_boost :: real
  acc_other_rewards :: "other_reward list"

text \<open>One iteration of the loop over the APR items.\<close>

definition apr_item_step :: "apr_acc \<Rightarrow> apr_item \<Rightarrow> apr_acc" where
  "apr_item_step acc item =
     (let apr_type = get_or (it_type item) [];
          title = get_or (it_title item) [];
          apr_value = float_or_0 (it_apr item) * 100
      in if apr_type = ''SWAP_FEE_24H'' then acc\<lparr>acc_base_apy := apr_value\<rparr>
         else if apr_type = ''VEBAL_EMISSIONS'' then acc\<lparr>acc_bal_base := apr_value\<rparr>
         else if apr_type = ''STAKING_BOOST'' then acc\<lparr>acc_bal_boost := apr_value\<rparr>
         else if apr_value > 0
         then acc\<lparr>acc_other_rewards := acc_other_rewards acc @ [\<lparr> token = title, apy = apr_value \<rparr>]\<rparr>
         else acc)"

definition apr_items_loop :: "apr_item list \<Rightarrow> apr_acc" where
  "apr_items_loop apr_items =
     foldl apr_item_step
       \<lparr> acc_base_apy = 0, acc_bal_base = 0, acc_bal_boost = 0, acc_other_rewards = [] \<rparr>
       apr_items"

text \<open>
  The loop over the pool tokens. The division \<^verbatim>\<open>100 / len(poolTokens)\<close> runs inside the
  loop, so the list is not empty there.
\<close>

definition token_ratio :: "nat \<Rightarrow> pool_token \<Rightarrow> string \<times> real" where
  "token_ratio n tok =
     (let symbol = get_or (pt_symbol tok) ''Unknown'';
          ratio_pct = (if truthy (pt_weight tok) then the (pt_weight tok) * 100
                       else 100 / of_nat n)
      in (symbol, ratio_pct))"

definition parse_pool ::
  "network \<Rightarrow> AuraFinanceAPI option \<Rightarrow> raw_pool option \<Rightarrow> string \<Rightarrow> bool
     \<Rightarrow> (py_error + PoolData option) \<times> AuraFinanceAPI option"
where
  "parse_pool net self_aura_api pool_data chain_name aura_enabled =
     (case pool_data of
        None \<Rightarrow> (Inr None, self_aura_api)
      | Some pd \<Rightarrow>
          let dynamic = get_or (rp_dynamicData pd)
                \<lparr> dd_totalLiquidity = None, dd_totalShares = None, dd_aprItems = [] \<rparr>;
              tvl_v = float_or_0 (dd_totalLiquidity dynamic);
              acc = apr_items_loop (dd_aprItems dynamic);
              base = acc_base_apy acc;
              other = acc_other_rewards acc;
              bal_rewards = [acc_bal_base acc, acc_bal_base acc + acc_bal_boost acc];
              total = base + bal_rewards ! 0 + sum_list (map apy other);
              tokens = get_or (rp_poolTokens pd) [];
              result = \<lparr> name = get_or (rp_name pd) ''Unknown'',
                         chain = chain_name,
                         address = get_or (rp_address pd) [],
                         pool_id = get_or (rp_id pd) [],
                         tvl = tvl_v,
                         base_apy = base,
                         bal_rewards_apy = bal_rewards,
                         other_rewards = other,
                         total_apy = total,
                         coins = map (\<lambda>t. get_or (pt_symbol t) ''Unknown'') tokens,
                         coin_ratios = map (token_ratio (length tokens)) tokens,
                         coin_amounts = map (\<lambda>t. float_or_0 (pt_balance t)) tokens,
                         coin_prices = map (\<lambda>t. 0) tokens,
                         aura_apy = None,
                         aura_tvl = None,
                         aura_boost = None,
                         aura_staking_contract = None \<rparr>
          in (case self_aura_api of
                None \<Rightarrow> (Inr (Some result), None)
              | Some api \<Rightarrow>
                  if \<not> aura_enabled then (Inr (Some result), Some api)
                  else
                    (case find_pool_by_balancer_address net (get_or (rp_address pd) []) chain_name api of
                       (None, api1) \<Rightarrow> (Inr (Some result), Some api1)
                     | (Some ap, api1) \<Rightarrow>
                         let bal_max_apr = bal_rewards ! 1
                         in (case calculate_aura_apr net (Some ap) tvl_v bal_max_apr api1 of
                               (Inl e, api2) \<Rightarrow> (Inl e, Some api2)
                             | (Inr aura_apr_data, api2) \<Rightarrow>
                                 let aura_apy_v =
                                       (case aura_apr_data of
                                          None \<Rightarrow> None
                                        | Some d \<Rightarrow>
                                            Some (base + total_apr d + sum_list (map apy other)));
                                     total_shares = float_or_0 (dd_totalShares dynamic);
                                     bpt_price = (if total_shares > 0 then tvl_v / total_shares else 1);
                                     aura_tvl_v = get_aura_tvl (Some ap) bpt_price
                                 in (Inr (Some (result
                                       \<lparr> aura_apy := aura_apy_v,
                                         aura_tvl := Some aura_tvl_v,
                                         aura_boost := Some 2.5,
                                         aura_staking_contract := ap_rewardPool ap \<rparr>)),
                                     Some api2)))))"

section \<open>Notions used to state the properties\<close>

definition empty_dynamic :: dynamic_data where
  "empty_dynamic = \<lparr> dd_totalLiquidity = None, dd_totalShares = None, dd_aprItems = [] \<rparr>"

text \<open>The APR items that \<^verbatim>\<open>_parse_pool\<close> reads from a payload, and a payload with other items.\<close>

definition apr_items_of :: "raw_pool \<Rightarrow> apr_item list" where
  "apr_items_of pd = dd_aprItems (get_or (rp_dynamicData pd) empty_dynamic)"

definition with_apr_items :: "raw_pool \<Rightarrow> apr_item list \<Rightarrow> raw_pool" where
  "with_apr_items pd items =
     pd\<lparr>rp_dynamicData := Some ((get_or (rp_dynamicData pd) empty_dynamic)\<lparr>dd_aprItems := items\<rparr>)\<rparr>"

text \<open>The type tag and the percentage of an APR item, as the loop body computes them.\<close>

definition item_type :: "apr_item \<Rightarrow> string" where
  "item_type item = get_or (it_type item) []"

definition item_apr_value :: "apr_item \<Rightarrow> real" where
  "item_apr_value item = float_or_0 (it_apr item) * 100"

subsection \<open>Inputs of the examples\<close>

definition mk_item :: "string \<Rightarrow> real \<Rightarrow> apr_item" where
  "mk_item ty v =
     \<lparr> it_type = Some ty, it_title = Some ''t'', it_apr = Some v, it_rewardTokenSymbol = None \<rparr>"

definition example_pool :: "apr_item list \<Rightarrow> real \<Rightarrow> raw_pool" where
  "example_pool items t =
     \<lparr> rp_id = Some ''0xabcd0001'', rp_address = Some ''0xAbCd'',
       rp_name = Some ''Wrapped  ETH / USDC!!'',
       rp_dynamicData =
         Some \<lparr> dd_totalLiquidity = Some t, dd_totalShares = Some 10, dd_aprItems = items \<rparr>,
       rp_poolTokens = None \<rparr>"

text \<open>A network on which every request fails.\<close>

definition offline :: network where
  "offline = \<lparr> subgraph = (\<lambda>url. []), coingecko = (\<lambda>attempt. Failed) \<rparr>"

text \<open>An overlay pool with other reward data.\<close>

definition with_rewards :: "aura_pool \<Rightarrow> reward list \<Rightarrow> aura_pool" where
  "with_rewards p rs = p\<lparr>ap_rewardData := rs\<rparr>"

definition mk_reward :: "string \<Rightarrow> int \<Rightarrow> real \<Rightarrow> reward" where
  "mk_reward symb dec rate =
     \<lparr> rw_token = Some \<lparr> tk_symbol = Some symb, tk_decimals = Some dec \<rparr>,
       rw_rewardRate = Some rate, rw_periodFinish = None \<rparr>"

text \<open>The overlay pool of \<open>example_pool\<close>: its LP token is the pool's address.\<close>

definition example_aura_pool :: "reward list \<Rightarrow> aura_pool" where
  "example_aura_pool rs =
     \<lparr> ap_id = ''7'', ap_lpToken_id = Some ''0xABCD'',
       ap_totalStaked = Some 5000000000000000000,
       ap_rewardPool = Some ''0x5take'', ap_rewardData = rs \<rparr>"

text \<open>A network whose subgraph lists that pool and whose oracle answers at once.\<close>

definition example_net :: "reward list \<Rightarrow> (string \<times> real option) list \<Rightarrow> network" where
  "example_net rs prices =
     \<lparr> subgraph = (\<lambda>url. [example_aura_pool rs]), coingecko = (\<lambda>attempt. Ok prices) \<rparr>"

subsection \<open>Price failure\<close>

text \<open>
  The price lookup of a symbol fails: the result is None or 0, which the overlay tests
  with \<^verbatim>\<open>if not token_price\<close>.
\<close>

definition price_fails :: "network \<Rightarrow> AuraFinanceAPI \<Rightarrow> string \<Rightarrow> bool" where
  "price_fails net api symb = (\<not> truthy (fst (get_token_price net symb api)))"

text \<open>
  Whenever the oracle answers, its answer (a dict, so its keys are distinct) gives the
  oracle id the price 0.
\<close>

definition zero_priced :: "network \<Rightarrow> string \<Rightarrow> bool" where
  "zero_priced net cg_id =
     (\<forall>attempt data. coingecko net attempt = Ok data \<longrightarrow>
        distinct (map fst data) \<and> map_of data cg_id = Some (Some 0))"

text \<open>A client that has not fetched prices yet: \<^verbatim>\<open>_price_cache\<close> is empty.\<close>

definition fresh :: "AuraFinanceAPI \<Rightarrow> bool" where
  "fresh api = (\<not> prices_fetched api \<and> price_cache api = Map.empty)"

subsection \<open>History series and serialized records\<close>

text \<open>The series of a pool key in the history file (empty when there is none).\<close>

definition series :: "PoolDataStore \<Rightarrow> string \<Rightarrow> snapshot list" where
  "series st k =
     (case history_file st of
        Content h \<Rightarrow> (case h_pools h k of Some slot \<Rightarrow> h_snapshots slot | None \<Rightarrow> [])
      | Malformed \<Rightarrow> []
      | Missing \<Rightarrow> [])"

text \<open>Successive \<^verbatim>\<open>append_history\<close> calls, each with one record and its own timestamp.\<close>

definition append_each :: "(PoolData \<times> string) list \<Rightarrow> PoolDataStore \<Rightarrow> PoolDataStore" where
  "append_each calls st = foldl (\<lambda>s (r, now). snd (append_history [r] None now s)) st calls"

text \<open>
  A record of the shape that \<^verbatim>\<open>_parse_pool\<close> builds for a pool with an overlay pool and
  a tvl of 0 (the overlay APR is empty there, so \<open>aura_apy\<close> is absent), and a store with
  no files yet.
\<close>

definition example_record :: PoolData where
  "example_record =
     \<lparr> name = ''Wrapped  ETH / USDC!!'', chain = ''ethereum'', address = ''0xAbCd'',
       pool_id = ''0xabcd0001'', tvl = 0, base_apy = 1.23456, bal_rewards_apy = [2, 5],
       other_rewards = [], total_apy = 3.23456, coins = [], coin_ratios = [], coin_amounts = [],
       coin_prices = [], aura_apy = None, aura_tvl = Some 0, aura_boost = Some 2.5,
       aura_staking_contract = Some ''0x5take'' \<rparr>"

definition empty_store :: PoolDataStore where
  "empty_store = \<lparr> data_dir = ''data'', latest_file = Missing, history_file = Missing \<rparr>"

text \<open>
  A record as the snapshot file keeps it: money rounded to 2 decimals, percentages to 4,
  token amounts to 6 and token prices to 4, and the overlay fields kept only when
  \<open>aura_apy\<close> is present.
\<close>

definition as_serialized :: "PoolData \<Rightarrow> PoolData" where
  "as_serialized r =
     r\<lparr> tvl := py_round (tvl r) 2,
        base_apy := py_round (base_apy r) 4,
        bal_rewards_apy :=
          [if bal_rewards_apy r \<noteq> [] then py_round (bal_rewards_apy r ! 0) 4 else 0,
           if length (bal_rewards_apy r) > 1 then py_round (bal_rewards_apy r ! 1) 4 else 0],
        total_apy := py_round (total_apy r) 4,
        coin_amounts := map (\<lambda>a. py_round a 6) (coin_amounts r),
        coin_prices := map (\<lambda>p. py_round p 4) (coin_prices r),
        aura_apy := map_option (\<lambda>v. py_round v 4) (aura_apy r),
        aura_tvl := (if aura_apy r = None then None
                     else map_option (\<lambda>v. py_round v 2) (aura_tvl r)),
        aura_boost := (if aura_apy r = None then None
                       else map_option (\<lambda>v. py_round v 2) (aura_boost r)),
        aura_staking_contract := (if aura_apy r = None then None
                                  else aura_staking_contract r) \<rparr>"

text \<open>The example pool with a tvl of 0 and no share count: its BPT price falls back to 1.\<close>

definition no_shares_pool :: raw_pool where
  "no_shares_pool =
     (example_pool [] 0)\<lparr>rp_dynamicData :=
        Some \<lparr> dd_totalLiquidity = Some 0, dd_totalShares = None, dd_aprItems = [] \<rparr>\<rparr>"

subsection \<open>The pool key in the specification's words\<close>

text \<open>
  The key as the specification words it: the lowercased name is cut at every character
  outside \<^verbatim>\<open>[a-z0-9]\<close>, the non-empty pieces are joined by single underscores, and the
  result follows the lowercased chain and an underscore.
\<close>

fun split_fields :: "string \<Rightarrow> string list" where
  "split_fields [] = [[]]"
| "split_fields (c # cs) =
     (if is_lower_alnum c
      then (case split_fields cs of w # ws \<Rightarrow> (c # w) # ws | [] \<Rightarrow> [[c]])
      else [] # split_fields cs)"

definition alnum_words :: "string \<Rightarrow> string list" where
  "alnum_words s = filter (\<lambda>w. w \<noteq> []) (split_fields s)"

fun join_underscore :: "string list \<Rightarrow> string" where
  "join_underscore [] = []"
| "join_underscore [w] = w"
| "join_underscore (w # v # ws) = w @ CHR ''_'' # join_underscore (v # ws)"

definition spec_slug :: "string \<Rightarrow> string" where
  "spec_slug s = join_underscore (alnum_words (lower s))"

definition spec_pool_key :: "PoolData \<Rightarrow> string" where
  "spec_pool_key pool = lower (chain pool) @ ''_'' @ spec_slug (name pool)"

text \<open>The right half of \<^verbatim>\<open>strip('_')\<close>.\<close>

definition rstrip :: "string \<Rightarrow> string" where
  "rstrip s = rev (dropWhile (\<lambda>c. c = CHR ''_'') (rev s))"

section \<open>The reward decomposer\<close>

lemma parse_pool_None: "parse_pool net api None ch en = (Inr None, api)"
  by (simp add: parse_pool_def)

text \<open>The four decomposition fields of a parsed record are those of the loop over the APR items.\<close>

lemma parse_pool_fields:
  assumes "fst (parse_pool net api (Some pd) ch en) = Inr (Some r)"
  shows "base_apy r = acc_base_apy (apr_items_loop (apr_items_of pd))"
    and "bal_rewards_apy r =
           [acc_bal_base (apr_items_loop (apr_items_of pd)),
            acc_bal_base (apr_items_loop (apr_items_of pd))
              + acc_bal_boost (apr_items_loop (apr_items_of pd))]"
    and "other_rewards r = acc_other_rewards (apr_items_loop (apr_items_of pd))"
    and "total_apy r = acc_base_apy (apr_items_loop (apr_items_of pd))
           + acc_bal_base (apr_items_loop (apr_items_of pd))
           + sum_list (map apy (acc_other_rewards (apr_items_loop (apr_items_of pd))))"
  using assms
  by (auto simp: parse_pool_def Let_def apr_items_of_def empty_dynamic_def
           split: option.splits prod.splits sum.splits if_splits)

text \<open>Without an overlay client the record is the decomposition alone.\<close>

lemma parse_no_aura:
  "fst (parse_pool net None (Some pd) ch en) =
     Inr (Some
       \<lparr> name = get_or (rp_name pd) ''Unknown'', chain = ch,
         address = get_or (rp_address pd) [], pool_id = get_or (rp_id pd) [],
         tvl = float_or_0 (dd_totalLiquidity (get_or (rp_dynamicData pd) empty_dynamic)),
         base_apy = acc_base_apy (apr_items_loop (apr_items_of pd)),
         bal_rewards_apy =
           [acc_bal_base (apr_items_loop (apr_items_of pd)),
            acc_bal_base (apr_items_loop (apr_items_of pd))
              + acc_bal_boost (apr_items_loop (apr_items_of pd))],
         other_rewards = acc_other_rewards (apr_items_loop (apr_items_of pd)),
         total_apy = acc_base_apy (apr_items_loop (apr_items_of pd))
           + acc_bal_base (apr_items_loop (apr_items_of pd))
           + sum_list (map apy (acc_other_rewards (apr_items_loop (apr_items_of pd)))),
         coins = map (\<lambda>t. get_or (pt_symbol t) ''Unknown'') (get_or (rp_poolTokens pd) []),
         coin_ratios = map (token_ratio (length (get_or (rp_poolTokens pd) [])))
                         (get_or (rp_poolTokens pd) []),
         coin_amounts = map (\<lambda>t. float_or_0 (pt_balance t)) (get_or (rp_poolTokens pd) []),
         coin_prices = map (\<lambda>t. 0) (get_or (rp_poolTokens pd) []),
         aura_apy = None, aura_tvl = None, aura_boost = None,
         aura_staking_contract = None \<rparr>)"
  by (simp add: parse_pool_def Let_def apr_items_of_def empty_dynamic_def)

text \<open>
  C8. Every record that \<^verbatim>\<open>_parse_pool\<close> returns has
  \<open>total_apy = base_apy + bal_rewards_apy[0] + sum of the other rewards' apy\<close>, the
  unboosted figure. A pool whose APR items are a swap fee of 0.05, a base emission of 0.02
  and a boost emission of 0.03 (tags \<^verbatim>\<open>SWAP_FEE_24H\<close>, \<^verbatim>\<open>VEBAL_EMISSIONS\<close>,
  \<^verbatim>\<open>STAKING_BOOST\<close>) gets \<open>base_apy = 5\<close>, \<open>bal_rewards_apy = [2, 5]\<close> and
  \<open>total_apy = 7\<close>.
\<close>

theorem total_apy_unboosted:
  "(\<forall>net api pd ch en r.
      fst (parse_pool net api pd ch en) = Inr (Some r) \<longrightarrow>
      total_apy r = base_apy r + bal_rewards_apy r ! 0 + sum_list (map apy (other_rewards r)))
   \<and> (\<forall>net api pd ch en r.
      fst (parse_pool net api (Some pd) ch en) = Inr (Some r) \<and>
      apr_items_of pd = [mk_item ''SWAP_FEE_24H'' 0.05, mk_item ''VEBAL_EMISSIONS'' 0.02,
                         mk_item ''STAKING_BOOST'' 0.03] \<longrightarrow>
      base_apy r = 5 \<and> bal_rewards_apy r = [2, 5] \<and> total_apy r = 7)"
proof (intro conjI allI impI)
  fix net api pd ch en r
  assume h: "fst (parse_pool net api pd ch en) = Inr (Some r)"
  then obtain p where pd: "pd = Some p"
    by (cases pd) (simp_all add: parse_pool_None)
  from h show "total_apy r = base_apy r + bal_rewards_apy r ! 0 + sum_list (map apy (other_rewards r))"
    unfolding pd by (simp add: parse_pool_fields)
next
  fix net api pd ch en r
  assume h: "fst (parse_pool net api (Some pd) ch en) = Inr (Some r) \<and>
      apr_items_of pd = [mk_item ''SWAP_FEE_24H'' 0.05, mk_item ''VEBAL_EMISSIONS'' 0.02,
                         mk_item ''STAKING_BOOST'' 0.03]"
  then have a: "fst (parse_pool net api (Some pd) ch en) = Inr (Some r)" by simp
  show "base_apy r = 5" "bal_rewards_apy r = [2, 5]" "total_apy r = 7"
    using h by (simp_all add: parse_pool_fields [OF a] apr_items_loop_def apr_item_step_def
                  mk_item_def get_or_def float_or_0_def)
qed

theorem total_apy_unboosted_witness:
  "\<exists>r. fst (parse_pool offline None
            (Some (example_pool [mk_item ''SWAP_FEE_24H'' 0.05, mk_item ''VEBAL_EMISSIONS'' 0.02,
                                 mk_item ''STAKING_BOOST'' 0.03] 1000000))
            ''ethereum'' False) = Inr (Some r)
       \<and> total_apy r = base_apy r + bal_rewards_apy r ! 0 + sum_list (map apy (other_rewards r))
       \<and> base_apy r = 5 \<and> bal_rewards_apy r = [2, 5] \<and> total_apy r = 7"
proof -
  let ?items = "[mk_item ''SWAP_FEE_24H'' 0.05, mk_item ''VEBAL_EMISSIONS'' 0.02,
                 mk_item ''STAKING_BOOST'' 0.03]"
  let ?pd = "example_pool ?items 1000000"
  obtain r where h1: "fst (parse_pool offline None (Some ?pd) ''ethereum'' False) = Inr (Some r)"
    by (simp add: parse_no_aura)
  have h2: "apr_items_of ?pd = ?items"
    by (simp add: apr_items_of_def example_pool_def get_or_def)
  from total_apy_unboosted [THEN conjunct1, rule_format, OF h1]
       total_apy_unboosted [THEN conjunct2, rule_format, OF conjI [OF h1 h2]] h1
  show ?thesis by blast
qed

text \<open>A boost that never goes negative keeps the pair ordered.\<close>

lemma boost_foldl_nonneg:
  "0 \<le> acc_bal_boost acc \<Longrightarrow>
   \<forall>it \<in> set items. item_type it = ''STAKING_BOOST'' \<longrightarrow> 0 \<le> item_apr_value it \<Longrightarrow>
   0 \<le> acc_bal_boost (foldl apr_item_step acc items)"
proof (induction items arbitrary: acc)
  case Nil
  then show ?case by simp
next
  case (Cons it items)
  have "0 \<le> acc_bal_boost (apr_item_step acc it)"
    using Cons.prems by (simp add: apr_item_step_def item_type_def item_apr_value_def Let_def)
  then show ?case
    using Cons.IH [of "apr_item_step acc it"] Cons.prems(2) by simp
qed

text \<open>
  C2, as the code has it. The boost item is stored whatever its sign, so
  \<open>bal_rewards_apy[0] \<le> bal_rewards_apy[1]\<close> holds for the pools none of whose
  boost-emission items has a negative apr; the sign of a base-emission item does not matter.
\<close>

theorem bal_rewards_min_le_max:
  assumes "fst (parse_pool net api (Some pd) ch en) = Inr (Some r)"
    and "\<forall>it \<in> set (apr_items_of pd). item_type it = ''STAKING_BOOST'' \<longrightarrow> 0 \<le> item_apr_value it"
  shows "bal_rewards_apy r ! 0 \<le> bal_rewards_apy r ! 1"
proof -
  have "0 \<le> acc_bal_boost (apr_items_loop (apr_items_of pd))"
    unfolding apr_items_loop_def by (rule boost_foldl_nonneg) (use assms(2) in simp_all)
  then show ?thesis
    by (simp add: parse_pool_fields(2) [OF assms(1)])
qed

theorem bal_rewards_min_le_max_witness:
  "\<exists>r. fst (parse_pool offline None
            (Some (example_pool [mk_item ''VEBAL_EMISSIONS'' (- 0.02), mk_item ''STAKING_BOOST'' 0.03] 1000000))
            ''ethereum'' False) = Inr (Some r)
       \<and> bal_rewards_apy r ! 0 \<le> bal_rewards_apy r ! 1"
proof -
  let ?pd = "example_pool [mk_item ''VEBAL_EMISSIONS'' (- 0.02), mk_item ''STAKING_BOOST'' 0.03] 1000000"
  obtain r where h1: "fst (parse_pool offline None (Some ?pd) ''ethereum'' False) = Inr (Some r)"
    by (simp add: parse_no_aura)
  have h2: "\<forall>it \<in> set (apr_items_of ?pd). item_type it = ''STAKING_BOOST'' \<longrightarrow> 0 \<le> item_apr_value it"
    by (simp add: apr_items_of_def example_pool_def get_or_def mk_item_def
          item_type_def item_apr_value_def float_or_0_def)
  from bal_rewards_min_le_max [OF h1 h2] h1 show ?thesis by blast
qed

text \<open>
  The claim as stated fails: a base emission of 0.02 with a boost emission of -0.03 gives
  the pair \<open>[2, -1]\<close>.
\<close>

theorem negative_boost_counterexample:
  "\<exists>r. fst (parse_pool offline None
            (Some (example_pool [mk_item ''VEBAL_EMISSIONS'' 0.02, mk_item ''STAKING_BOOST'' (- 0.03)] 1000000))
            ''ethereum'' False) = Inr (Some r)
       \<and> bal_rewards_apy r = [2, - 1]
       \<and> \<not> bal_rewards_apy r ! 0 \<le> bal_rewards_apy r ! 1"
  by (simp add: parse_no_aura apr_items_of_def example_pool_def get_or_def mk_item_def
        apr_items_loop_def apr_item_step_def float_or_0_def)

lemma get_or_simps: "get_or (Some x) d = x" "get_or None d = d"
  by (simp_all add: get_or_def)

lemma apr_item_step_dropped:
  "item_type it \<noteq> ''SWAP_FEE_24H'' \<Longrightarrow> item_type it \<noteq> ''VEBAL_EMISSIONS'' \<Longrightarrow>
   item_type it \<noteq> ''STAKING_BOOST'' \<Longrightarrow> item_apr_value it \<le> 0 \<Longrightarrow>
   apr_item_step acc it = acc"
  by (simp add: apr_item_step_def item_type_def item_apr_value_def Let_def)

lemma apr_items_loop_dropped:
  "item_type it \<noteq> ''SWAP_FEE_24H'' \<Longrightarrow> item_type it \<noteq> ''VEBAL_EMISSIONS'' \<Longrightarrow>
   item_type it \<noteq> ''STAKING_BOOST'' \<Longrightarrow> item_apr_value it \<le> 0 \<Longrightarrow>
   apr_items_loop (xs @ it # ys) = apr_items_loop (xs @ ys)"
  by (simp add: apr_items_loop_def apr_item_step_dropped)

text \<open>The record depends on the APR items through the loop's result only.\<close>

lemma parse_pool_cong_items:
  "apr_items_loop items = apr_items_loop items' \<Longrightarrow>
   parse_pool net api (Some (with_apr_items pd items)) ch en =
   parse_pool net api (Some (with_apr_items pd items')) ch en"
  by (simp add: parse_pool_def with_apr_items_def get_or_simps Let_def
        split: option.splits prod.splits sum.splits)

text \<open>A reward whose rate is not positive is skipped before its price is looked up.\<close>

lemma apr_loop_skip_nonpositive:
  "reward_rate r \<le> 0 \<Longrightarrow>
   apr_loop net t bm (xs @ r # ys) acc api = apr_loop net t bm (xs @ ys) acc api"
proof (induction xs arbitrary: acc api)
  case Nil
  then show ?case by (cases acc) simp
next
  case (Cons x xs)
  obtain b a e where acc: "acc = (b, a, e)" by (cases acc)
  show ?case
    unfolding acc using Cons
    by (simp add: Let_def split: prod.splits sum.splits)
qed

text \<open>
  C3, as the code has it. An APR item whose value is zero or negative and whose type is
  none of \<^verbatim>\<open>SWAP_FEE_24H\<close>, \<^verbatim>\<open>VEBAL_EMISSIONS\<close>, \<^verbatim>\<open>STAKING_BOOST\<close> contributes
  nothing: the parsed record (and the client's state) is the same with the item removed.
  In the overlay a reward whose rate is zero or negative contributes nothing: the APR
  result is the same with the reward removed. Items of the three named types are stored
  whatever their sign.
\<close>

theorem nonpositive_dropped:
  "(\<forall>net api pd ch en xs it ys.
      item_type it \<notin> {''SWAP_FEE_24H'', ''VEBAL_EMISSIONS'', ''STAKING_BOOST''}
        \<and> item_apr_value it \<le> 0 \<longrightarrow>
      parse_pool net api (Some (with_apr_items pd (xs @ it # ys))) ch en =
      parse_pool net api (Some (with_apr_items pd (xs @ ys))) ch en)
   \<and> (\<forall>net api p t bm xs r ys.
      reward_rate r \<le> 0 \<longrightarrow>
      calculate_aura_apr net (Some (with_rewards p (xs @ r # ys))) t bm api =
      calculate_aura_apr net (Some (with_rewards p (xs @ ys))) t bm api)"
proof (intro conjI allI impI)
  fix net api pd ch en xs it ys
  assume "item_type it \<notin> {''SWAP_FEE_24H'', ''VEBAL_EMISSIONS'', ''STAKING_BOOST''}
            \<and> item_apr_value it \<le> 0"
  then have "apr_items_loop (xs @ it # ys) = apr_items_loop (xs @ ys)"
    by (intro apr_items_loop_dropped) simp_all
  then show "parse_pool net api (Some (with_apr_items pd (xs @ it # ys))) ch en =
      parse_pool net api (Some (with_apr_items pd (xs @ ys))) ch en"
    by (rule parse_pool_cong_items)
next
  fix net api p t bm xs r ys
  assume "reward_rate r \<le> 0"
  then show "calculate_aura_apr net (Some (with_rewards p (xs @ r # ys))) t bm api =
      calculate_aura_apr net (Some (with_rewards p (xs @ ys))) t bm api"
    by (simp add: calculate_aura_apr_def with_rewards_def apr_loop_skip_nonpositive)
qed

theorem nonpositive_dropped_witness:
  "parse_pool offline None
     (Some (with_apr_items (example_pool [] 1000000)
        ([mk_item ''SWAP_FEE_24H'' 0.05] @ mk_item ''IB_YIELD'' (- 0.01) # [mk_item ''MERKL'' 0.04])))
     ''ethereum'' False
   = parse_pool offline None
     (Some (with_apr_items (example_pool [] 1000000)
        ([mk_item ''SWAP_FEE_24H'' 0.05] @ [mk_item ''MERKL'' 0.04])))
     ''ethereum'' False
   \<and> calculate_aura_apr offline
        (Some (with_rewards (example_aura_pool [])
           ([mk_reward ''BAL'' 18 1000] @ mk_reward ''AURA'' 18 0 # [mk_reward ''GHO'' 18 5])))
        1000000 5 new_aura_api
   = calculate_aura_apr offline
        (Some (with_rewards (example_aura_pool [])
           ([mk_reward ''BAL'' 18 1000] @ [mk_reward ''GHO'' 18 5])))
        1000000 5 new_aura_api"
proof -
  have h1: "item_type (mk_item ''IB_YIELD'' (- 0.01))
              \<notin> {''SWAP_FEE_24H'', ''VEBAL_EMISSIONS'', ''STAKING_BOOST''}
            \<and> item_apr_value (mk_item ''IB_YIELD'' (- 0.01)) \<le> 0"
    by (simp add: item_type_def item_apr_value_def mk_item_def get_or_def float_or_0_def)
  have h2: "reward_rate (mk_reward ''AURA'' 18 0) \<le> 0"
    by (simp add: reward_rate_def mk_reward_def float_or_0_def)
  from nonpositive_dropped [THEN conjunct1, rule_format, OF h1]
       nonpositive_dropped [THEN conjunct2, rule_format, OF h2]
  show ?thesis by blast
qed

text \<open>
  The claim as stated fails: a swap-fee item of -0.05 reaches \<open>base_apy\<close> and
  \<open>total_apy\<close> (both -5), where the pool without the item has 0.
\<close>

theorem negative_swap_fee_counterexample:
  "\<exists>r r'. fst (parse_pool offline None
              (Some (example_pool [mk_item ''SWAP_FEE_24H'' (- 0.05)] 1000000))
              ''ethereum'' False) = Inr (Some r)
        \<and> fst (parse_pool offline None (Some (example_pool [] 1000000)) ''ethereum'' False)
            = Inr (Some r')
        \<and> base_apy r = - 5 \<and> total_apy r = - 5 \<and> base_apy r' = 0 \<and> total_apy r' = 0
        \<and> base_apy r \<noteq> base_apy r' \<and> total_apy r \<noteq> total_apy r'"
  by (simp add: parse_no_aura apr_items_of_def example_pool_def get_or_def mk_item_def
        apr_items_loop_def apr_item_step_def float_or_0_def)

section \<open>The price cache\<close>

lemma fetch_attempts_fetched: "prices_fetched (fetch_attempts net m a api)"
proof (induction net m a api rule: fetch_attempts.induct)
  case (1 net max_retries attempt api)
  then show ?case
    by (subst fetch_attempts.simps) (simp split: http_result.splits)
qed

lemma get_token_price_snd:
  "snd (get_token_price net s api) =
     (if prices_fetched api then api else fetch_attempts net 3 0 api)"
  by (simp add: get_token_price_def fetch_all_prices_def Let_def)

lemma get_token_price_fetched: "prices_fetched (snd (get_token_price net s api))"
  by (simp add: get_token_price_snd fetch_attempts_fetched)

lemma get_token_price_fst:
  "fst (get_token_price net s api) =
     (let c = price_cache (snd (get_token_price net s' api))
      in if c s \<noteq> None then c s else c (upper s))"
  by (auto simp add: get_token_price_def fetch_all_prices_def Let_def)

lemma get_token_price_again:
  "get_token_price net s (snd (get_token_price net s' api)) =
     (fst (get_token_price net s api), snd (get_token_price net s' api))"
proof -
  let ?a = "snd (get_token_price net s' api)"
  have f: "prices_fetched ?a" by (rule get_token_price_fetched)
  have 1: "snd (get_token_price net s ?a) = ?a"
    using f by (simp add: get_token_price_snd)
  have 2: "fst (get_token_price net s ?a) = fst (get_token_price net s api)"
    using f by (simp add: get_token_price_fst [of net s _ s] get_token_price_snd Let_def)
  show ?thesis using 1 2 by (simp add: prod_eq_iff)
qed

lemma price_fails_again:
  "price_fails net (snd (get_token_price net s' api)) s = price_fails net api s"
  by (simp add: price_fails_def get_token_price_again)

lemma get_token_price_pair:
  "get_token_price net s api = (fst (get_token_price net s api), snd (get_token_price net [] api))"
  by (simp add: prod_eq_iff get_token_price_snd)

lemma id_to_symbols_eq:
  "id_to_symbols =
     [''aura-finance'' \<mapsto> [''AURA''], ''balancer'' \<mapsto> [''BAL''], ''gho'' \<mapsto> [''GHO''],
      ''usd-coin'' \<mapsto> [''USDC''], ''optimism'' \<mapsto> [''OP'', ''axlOP'']]"
  by (simp add: id_to_symbols_def COINGECKO_IDS_def fun_eq_iff)

lemma store_price_Some:
  "store_price cache (cg, price) s = Some p \<Longrightarrow>
   cache s = Some p \<or> (price = Some p \<and> p \<noteq> 0 \<and> (s, cg) \<in> set COINGECKO_IDS)"
  by (auto simp: store_price_def id_to_symbols_eq truthy_def COINGECKO_IDS_def
           split: if_splits option.splits)

lemma store_prices_Some:
  "store_prices data cache s = Some p \<Longrightarrow>
   cache s = Some p \<or> (\<exists>cg. (cg, Some p) \<in> set data \<and> p \<noteq> 0 \<and> (s, cg) \<in> set COINGECKO_IDS)"
  unfolding store_prices_def
proof (induction data arbitrary: cache)
  case Nil
  then show ?case by simp
next
  case (Cons entry data)
  obtain cg price where entry: "entry = (cg, price)" by (cases entry)
  from Cons.prems have "foldl store_price (store_price cache (cg, price)) data s = Some p"
    by (simp add: entry)
  from Cons.IH [OF this] show ?case
    using store_price_Some [of cache cg price s p] by (auto simp: entry)
qed

lemma fetch_attempts_cache:
  "price_cache (fetch_attempts net m a api) s = Some p \<Longrightarrow>
   price_cache api s = Some p \<or>
   (\<exists>i data cg. coingecko net i = Ok data \<and> (cg, Some p) \<in> set data \<and> p \<noteq> 0
       \<and> (s, cg) \<in> set COINGECKO_IDS)"
proof (induction net m a api rule: fetch_attempts.induct)
  case (1 net max_retries attempt api)
  show ?case
  proof (cases "coingecko net attempt")
    case (Ok data)
    with "1.prems" have "price_cache api s = Some p \<or> store_prices data (price_cache api) s = Some p"
      by (subst (asm) fetch_attempts.simps) (simp split: if_splits)
    then show ?thesis
      using store_prices_Some [of data "price_cache api" s p] Ok by blast
  next
    case RateLimited
    show ?thesis
    proof (cases "attempt < max_retries \<and> int attempt < int max_retries - 1")
      case True
      then have "fetch_attempts net max_retries attempt api
                 = fetch_attempts net max_retries (attempt + 1) api"
        by (subst fetch_attempts.simps) (simp add: RateLimited)
      with "1.prems" "1.IH" [OF _ RateLimited] True show ?thesis by simp
    next
      case False
      then have "fetch_attempts net max_retries attempt api = api\<lparr>prices_fetched := True\<rparr>"
        by (subst fetch_attempts.simps) (auto simp: RateLimited)
      with "1.prems" show ?thesis by simp
    qed
  next
    case Failed
    with "1.prems" show ?thesis
      by (subst (asm) fetch_attempts.simps) (simp split: if_splits)
  qed
qed

lemma zero_never_cached:
  "\<forall>s. price_cache api s \<noteq> Some 0 \<Longrightarrow> price_cache (snd (fetch_all_prices net m api)) s \<noteq> Some 0"
  using fetch_attempts_cache [of net m 0 api s 0]
  by (auto simp: fetch_all_prices_def Let_def)

lemma cache_after_fetch_table:
  "fresh api \<Longrightarrow> price_cache (snd (get_token_price net s' api)) s = Some p \<Longrightarrow>
   \<exists>i data cg. coingecko net i = Ok data \<and> (cg, Some p) \<in> set data \<and> p \<noteq> 0
       \<and> (s, cg) \<in> set COINGECKO_IDS"
  using fetch_attempts_cache [of net 3 0 api s p]
  by (auto simp: get_token_price_snd fresh_def)

lemma zero_priced_lookup:
  assumes z: "zero_priced net cg" and f: "fresh api" and m: "(s, cg) \<in> set COINGECKO_IDS"
  shows "fst (get_token_price net s api) = None"
proof -
  let ?c = "price_cache (snd (get_token_price net s api))"
  have no: "?c s' = None" if "\<forall>cg'. (s', cg') \<in> set COINGECKO_IDS \<longrightarrow> cg' = cg" for s'
  proof (rule ccontr)
    assume "?c s' \<noteq> None"
    then obtain p where "?c s' = Some p" by auto
    from cache_after_fetch_table [OF f this]
    obtain i data cg' where d: "coingecko net i = Ok data" "(cg', Some p) \<in> set data" "p \<noteq> 0"
        "(s', cg') \<in> set COINGECKO_IDS" by blast
    with that have "cg' = cg" by blast
    from z d(1) have "distinct (map fst data)" "map_of data cg = Some (Some 0)"
      by (auto simp: zero_priced_def)
    with d(2) \<open>cg' = cg\<close> have "Some p = Some 0" by simp
    with d(3) show False by simp
  qed
  have 1: "?c s = None"
    using m by (intro no) (auto simp: COINGECKO_IDS_def)
  have 2: "?c (upper s) = None"
    using m by (intro no) (auto simp: COINGECKO_IDS_def upper_def upper_char_def)
  show ?thesis
    using 1 2 by (simp add: get_token_price_fst [of net s api s] Let_def)
qed

section \<open>The overlay APR\<close>

lemma powi_ne0: "(10::real) powi d \<noteq> 0"
  by simp

lemma apr_loop_no_error:
  "t \<noteq> 0 \<Longrightarrow> \<not> isl (fst (apr_loop net t bm rs acc api))"
proof (induction rs arbitrary: acc api)
  case Nil
  then show ?case by simp
next
  case (Cons r rs)
  obtain b a e where acc: "acc = (b, a, e)" by (cases acc)
  show ?case
    unfolding acc using Cons
    by (simp add: Let_def py_div_def split: prod.splits)
qed

lemma apr_loop_fetch_invariant:
  "fst (apr_loop net t bm rs acc (snd (get_token_price net s api))) =
   fst (apr_loop net t bm rs acc api)"
proof (induction rs arbitrary: acc api)
  case Nil
  then show ?case by simp
next
  case (Cons r rs)
  obtain b a e where acc: "acc = (b, a, e)" by (cases acc)
  let ?a = "snd (get_token_price net s api)"
  have eq: "get_token_price net (reward_symbol r) api
            = (fst (get_token_price net (reward_symbol r) api), ?a)"
    by (simp add: prod_eq_iff get_token_price_snd)
  show ?case
  proof (cases "reward_rate r \<le> 0")
    case True
    then show ?thesis unfolding acc using Cons.IH by simp
  next
    case False
    then show ?thesis
      unfolding acc
      by (subst (2) apr_loop.simps, subst eq) (simp add: get_token_price_again Let_def)
  qed
qed

lemma apr_loop_bal_subst:
  "t \<noteq> 0 \<Longrightarrow> price_fails net api ''BAL'' \<Longrightarrow>
   fst (apr_loop net t bm rs (b, a, e) api) = Inr (b', a', e') \<Longrightarrow>
   b' = (if \<exists>r \<in> set rs. reward_symbol r = ''BAL'' \<and> 0 < reward_rate r then bm else b)"
proof (induction rs arbitrary: b a e api)
  case Nil
  then show ?case by simp
next
  case (Cons r rs)
  let ?api = "snd (get_token_price net (reward_symbol r) api)"
  have pf: "price_fails net ?api ''BAL''"
    using Cons.prems(2) by (simp add: price_fails_again)
  note IH = Cons.IH [OF Cons.prems(1) pf]
  show ?case
  proof (cases "reward_rate r \<le> 0")
    case True
    with Cons.prems(3) have "fst (apr_loop net t bm rs (b, a, e) api) = Inr (b', a', e')"
      by simp
    from Cons.IH [OF Cons.prems(1,2) this] True show ?thesis by auto
  next
    case False
    show ?thesis
    proof (cases "reward_symbol r = ''BAL''")
      case True
      with Cons.prems(2) have nt: "\<not> truthy (fst (get_token_price net (reward_symbol r) api))"
        by (simp add: price_fails_def)
      from Cons.prems(3) False True nt
      have "fst (apr_loop net t bm rs (bm, a, e) ?api) = Inr (b', a', e')"
        by (simp add: split_beta)
      from IH [OF this] False True show ?thesis by auto
    next
      case nb: False
      from Cons.prems(1,3) False nb
      have "\<exists>a1 e1. fst (apr_loop net t bm rs (b, a1, e1) ?api) = Inr (b', a', e')"
        by (auto simp: split_beta Let_def py_div_def split: if_splits)
      then obtain a1 e1 where "fst (apr_loop net t bm rs (b, a1, e1) ?api) = Inr (b', a', e')"
        by blast
      from IH [OF this] nb show ?thesis by auto
    qed
  qed
qed

lemma apr_loop_aura_zero:
  "t \<noteq> 0 \<Longrightarrow> price_fails net api ''AURA'' \<Longrightarrow>
   fst (apr_loop net t bm rs (b, a, e) api) = Inr (b', a', e') \<Longrightarrow> a' = a"
proof (induction rs arbitrary: b a e api)
  case Nil
  then show ?case by simp
next
  case (Cons r rs)
  let ?api = "snd (get_token_price net (reward_symbol r) api)"
  have pf: "price_fails net ?api ''AURA''"
    using Cons.prems(2) by (simp add: price_fails_again)
  note IH = Cons.IH [OF Cons.prems(1) pf]
  show ?case
  proof (cases "reward_rate r \<le> 0")
    case True
    with Cons.prems(3) have "fst (apr_loop net t bm rs (b, a, e) api) = Inr (b', a', e')"
      by simp
    from Cons.IH [OF Cons.prems(1,2) this] show ?thesis .
  next
    case False
    have nt: "reward_symbol r = ''AURA'' \<Longrightarrow> \<not> truthy (fst (get_token_price net (reward_symbol r) api))"
      using Cons.prems(2) by (simp add: price_fails_def)
    from Cons.prems(1,3) False nt
    have "\<exists>b1 e1. fst (apr_loop net t bm rs (b1, a, e1) ?api) = Inr (b', a', e')"
      by (auto simp: split_beta Let_def py_div_def split: if_splits)
    then obtain b1 e1 where "fst (apr_loop net t bm rs (b1, a, e1) ?api) = Inr (b', a', e')"
      by blast
    from IH [OF this] show ?thesis .
  qed
qed

lemma apr_loop_drop_failed:
  "reward_symbol r \<noteq> ''BAL'' \<Longrightarrow> price_fails net api (reward_symbol r) \<Longrightarrow>
   fst (apr_loop net t bm (xs @ r # ys) acc api) = fst (apr_loop net t bm (xs @ ys) acc api)"
proof (induction xs arbitrary: acc api)
  case Nil
  obtain b a e where acc: "acc = (b, a, e)" by (cases acc)
  from Nil show ?case
    unfolding acc
    by (simp add: price_fails_def split_beta apr_loop_fetch_invariant)
next
  case (Cons x xs)
  obtain b a e where acc: "acc = (b, a, e)" by (cases acc)
  have IH1: "fst (apr_loop net t bm (xs @ r # ys) acc' (snd (get_token_price net s api)))
             = fst (apr_loop net t bm (xs @ ys) acc' (snd (get_token_price net s api)))"
    for acc' s
    using Cons.prems(2) by (intro Cons.IH [OF Cons.prems(1)]) (simp add: price_fails_again)
  note IH2 = Cons.IH [OF Cons.prems(1,2)]
  show ?case
    unfolding acc
    by (simp add: split_beta Let_def IH1 IH2 split: sum.splits)
qed

lemma apr_loop_result:
  "t \<noteq> 0 \<Longrightarrow> \<exists>b a e. fst (apr_loop net t bm rs acc api) = Inr (b, a, e)"
  using apr_loop_no_error [of t net bm rs acc api]
  by (cases "fst (apr_loop net t bm rs acc api)") auto

lemma calculate_aura_apr_fst:
  "0 < t \<Longrightarrow>
   fst (calculate_aura_apr net (Some p) t bm api) =
     (case fst (apr_loop net t bm (ap_rewardData p) (0, 0, 0) api) of
        Inl e \<Rightarrow> Inl e
      | Inr (b, a, e) \<Rightarrow>
          Inr (Some \<lparr> total_apr = b + a + e, bal_apr = b, aura_apr = a, extra_apr = e \<rparr>))"
  by (simp add: calculate_aura_apr_def split: prod.splits sum.splits)

lemma calculate_aura_apr_no_tvl:
  "t \<le> 0 \<Longrightarrow> calculate_aura_apr net pool t bm api = (Inr None, api)"
  by (simp add: calculate_aura_apr_def split: option.splits)

lemma calculate_aura_apr_no_error:
  "\<not> isl (fst (calculate_aura_apr net pool t bm api))"
proof (cases "0 < t")
  case True
  then have "t \<noteq> 0" by simp
  show ?thesis
  proof (cases pool)
    case None
    then show ?thesis by (simp add: calculate_aura_apr_def)
  next
    case (Some p)
    from apr_loop_no_error [OF \<open>t \<noteq> 0\<close>, of net bm "ap_rewardData p" "(0, 0, 0)" api]
    show ?thesis
      unfolding Some calculate_aura_apr_fst [OF True]
      by (cases "fst (apr_loop net t bm (ap_rewardData p) (0, 0, 0) api)") auto
  qed
next
  case False
  then show ?thesis by (simp add: calculate_aura_apr_no_tvl)
qed

lemma calculate_aura_apr_empty_iff:
  "fst (calculate_aura_apr net (Some p) t bm api) = Inr x \<Longrightarrow> (x = None) = (t \<le> 0)"
  by (auto simp: calculate_aura_apr_def split: prod.splits sum.splits if_splits)

lemma calculate_aura_apr_result:
  "0 < t \<Longrightarrow> \<exists>d. fst (calculate_aura_apr net (Some p) t bm api) = Inr (Some d)"
proof -
  assume t: "0 < t"
  then have "t \<noteq> 0" by simp
  from apr_loop_result [OF this, of net bm "ap_rewardData p" "(0, 0, 0)" api]
  show ?thesis by (auto simp: calculate_aura_apr_fst [OF t])
qed

lemma overlay_bal_substituted:
  assumes "0 < t" and "price_fails net api ''BAL''"
    and "\<exists>r \<in> set (ap_rewardData p). reward_symbol r = ''BAL'' \<and> 0 < reward_rate r"
  shows "\<exists>d. fst (calculate_aura_apr net (Some p) t bm api) = Inr (Some d) \<and> bal_apr d = bm"
proof -
  from assms(1) have t: "t \<noteq> 0" by simp
  obtain b a e where l: "fst (apr_loop net t bm (ap_rewardData p) (0, 0, 0) api) = Inr (b, a, e)"
    using apr_loop_result [OF t] by blast
  from apr_loop_bal_subst [OF t assms(2) l] assms(3) have "b = bm" by simp
  with l assms(1) show ?thesis
    by (simp add: calculate_aura_apr_fst)
qed

lemma overlay_failed_dropped:
  assumes "reward_symbol r \<noteq> ''BAL''" and "price_fails net api (reward_symbol r)"
  shows "fst (calculate_aura_apr net (Some (with_rewards p (xs @ r # ys))) t bm api) =
         fst (calculate_aura_apr net (Some (with_rewards p (xs @ ys))) t bm api)"
proof (cases "0 < t")
  case True
  from assms have "fst (apr_loop net t bm (xs @ r # ys) (0, 0, 0) api)
               = fst (apr_loop net t bm (xs @ ys) (0, 0, 0) api)"
    by (rule apr_loop_drop_failed)
  with True show ?thesis
    by (simp add: calculate_aura_apr_fst with_rewards_def)
next
  case False
  then show ?thesis by (simp add: calculate_aura_apr_no_tvl)
qed

lemma overlay_aura_zero:
  assumes "price_fails net api ''AURA''"
    and "fst (calculate_aura_apr net (Some p) t bm api) = Inr (Some d)"
  shows "aura_apr d = 0"
proof -
  from calculate_aura_apr_empty_iff [OF assms(2)] have t: "0 < t" by auto
  then have t0: "t \<noteq> 0" by simp
  obtain b a e where l: "fst (apr_loop net t bm (ap_rewardData p) (0, 0, 0) api) = Inr (b, a, e)"
    using apr_loop_result [OF t0] by blast
  from apr_loop_aura_zero [OF t0 assms(1) l] have "a = 0" by simp
  with l assms(2) t show ?thesis
    by (auto simp: calculate_aura_apr_fst)
qed

text \<open>
  C9. For every overlay pool and every \<open>tvl \<le> 0\<close>, \<^verbatim>\<open>calculate_aura_apr\<close> returns the
  empty result, raises nothing and leaves the client untouched: no price is looked up and no
  division runs. For every input at all, the result is never a ZeroDivisionError: the
  division by \<open>tvl\<close> is reached only when \<open>0 < tvl\<close>.
\<close>

theorem overlay_empty_without_tvl:
  "(\<forall>net pool t bm api. t \<le> 0 \<longrightarrow> calculate_aura_apr net pool t bm api = (Inr None, api))
   \<and> (\<forall>net pool t bm api e. fst (calculate_aura_apr net pool t bm api) \<noteq> Inl e)"
proof (intro conjI allI impI)
  fix net pool t bm api
  assume "t \<le> (0::real)"
  then show "calculate_aura_apr net pool t bm api = (Inr None, api)"
    by (rule calculate_aura_apr_no_tvl)
next
  fix net pool t bm api e
  show "fst (calculate_aura_apr net pool t bm api) \<noteq> Inl e"
    using calculate_aura_apr_no_error [of net pool t bm api] by auto
qed

theorem overlay_empty_without_tvl_witness:
  "calculate_aura_apr (example_net [] [(''balancer'', Some 3)])
     (Some (example_aura_pool [mk_reward ''BAL'' 18 1000])) 0 5 new_aura_api
   = (Inr None, new_aura_api)
   \<and> calculate_aura_apr (example_net [] [(''balancer'', Some 3)])
     (Some (example_aura_pool [mk_reward ''BAL'' 18 1000])) (- 20) 5 new_aura_api
   = (Inr None, new_aura_api)"
proof -
  have h1: "(0::real) \<le> 0" and h2: "(- 20::real) \<le> 0" by simp_all
  from overlay_empty_without_tvl [THEN conjunct1, rule_format, OF h1]
       overlay_empty_without_tvl [THEN conjunct1, rule_format, OF h2]
  show ?thesis by blast
qed

text \<open>
  C7. In \<^verbatim>\<open>calculate_aura_apr\<close> with a positive tvl: when the price lookup of \<^verbatim>\<open>BAL\<close>
  fails and the pool has a BAL reward with a positive rate, \<open>bal_apr\<close> is the
  caller-supplied \<open>bal_max_apr\<close>. When the lookup fails for the symbol of any other
  reward, that reward contributes nothing: the result is the same with the reward removed.
  In particular a failing \<^verbatim>\<open>AURA\<close> price leaves \<open>aura_apr = 0\<close>; nothing is substituted.
\<close>

theorem price_failure_asymmetric:
  "(\<forall>net api p t bm.
      0 < t \<and> price_fails net api ''BAL''
        \<and> (\<exists>r \<in> set (ap_rewardData p). reward_symbol r = ''BAL'' \<and> 0 < reward_rate r) \<longrightarrow>
      (\<exists>d. fst (calculate_aura_apr net (Some p) t bm api) = Inr (Some d) \<and> bal_apr d = bm))
   \<and> (\<forall>net api p t bm xs r ys.
      reward_symbol r \<noteq> ''BAL'' \<and> price_fails net api (reward_symbol r) \<longrightarrow>
      fst (calculate_aura_apr net (Some (with_rewards p (xs @ r # ys))) t bm api) =
      fst (calculate_aura_apr net (Some (with_rewards p (xs @ ys))) t bm api))
   \<and> (\<forall>net api p t bm d.
      price_fails net api ''AURA''
        \<and> fst (calculate_aura_apr net (Some p) t bm api) = Inr (Some d) \<longrightarrow>
      aura_apr d = 0)"
  by (intro conjI allI impI)
     (blast intro: overlay_bal_substituted overlay_failed_dropped overlay_aura_zero)+

text \<open>The definitions that evaluate a price lookup on a concrete network.\<close>

lemmas eval_price =
  price_fails_def get_token_price_def fetch_all_prices_def fetch_attempts.simps
  example_net_def new_aura_api_def store_prices_def store_price_def id_to_symbols_eq
  truthy_def upper_def upper_char_def

theorem price_failure_asymmetric_witness:
  "(\<exists>d. fst (calculate_aura_apr (example_net [] [(''aura-finance'', Some 2)])
            (Some (example_aura_pool [mk_reward ''BAL'' 18 1000000000000000,
                                      mk_reward ''AURA'' 18 1000000000000000]))
            1000000 5 new_aura_api) = Inr (Some d) \<and> bal_apr d = 5)
   \<and> fst (calculate_aura_apr (example_net [] [(''aura-finance'', Some 2)])
            (Some (with_rewards (example_aura_pool [])
               ([mk_reward ''BAL'' 18 1000000000000000] @ mk_reward ''GHO'' 18 7000000000000000
                  # [mk_reward ''AURA'' 18 1000000000000000])))
            1000000 5 new_aura_api)
     = fst (calculate_aura_apr (example_net [] [(''aura-finance'', Some 2)])
            (Some (with_rewards (example_aura_pool [])
               ([mk_reward ''BAL'' 18 1000000000000000] @ [mk_reward ''AURA'' 18 1000000000000000])))
            1000000 5 new_aura_api)
   \<and> (\<exists>d. fst (calculate_aura_apr (example_net [] [(''balancer'', Some 3)])
            (Some (example_aura_pool [mk_reward ''BAL'' 18 1000000000000000,
                                      mk_reward ''AURA'' 18 1000000000000000]))
            1000000 5 new_aura_api) = Inr (Some d) \<and> aura_apr d = 0)"
proof -
  let ?n1 = "example_net [] [(''aura-finance'', Some 2)]"
  let ?n2 = "example_net [] [(''balancer'', Some 3)]"
  let ?bal = "mk_reward ''BAL'' 18 1000000000000000"
  let ?aura = "mk_reward ''AURA'' 18 1000000000000000"
  let ?gho = "mk_reward ''GHO'' 18 7000000000000000"
  have h1: "0 < (1000000::real) \<and> price_fails ?n1 new_aura_api ''BAL''
        \<and> (\<exists>r \<in> set (ap_rewardData (example_aura_pool [?bal, ?aura])).
              reward_symbol r = ''BAL'' \<and> 0 < reward_rate r)"
    by (simp add: eval_price example_aura_pool_def mk_reward_def reward_symbol_def
          reward_rate_def get_or_def float_or_0_def)
  have h2: "reward_symbol ?gho \<noteq> ''BAL'' \<and> price_fails ?n1 new_aura_api (reward_symbol ?gho)"
    by (simp add: eval_price mk_reward_def reward_symbol_def get_or_def)
  obtain d where d: "fst (calculate_aura_apr ?n2 (Some (example_aura_pool [?bal, ?aura]))
                       1000000 5 new_aura_api) = Inr (Some d)"
    using calculate_aura_apr_result [of 1000000] by force
  have h3: "price_fails ?n2 new_aura_api ''AURA''
        \<and> fst (calculate_aura_apr ?n2 (Some (example_aura_pool [?bal, ?aura]))
               1000000 5 new_aura_api) = Inr (Some d)"
    using d by (simp add: eval_price)
  from price_failure_asymmetric [THEN conjunct1, rule_format, OF h1]
       price_failure_asymmetric [THEN conjunct2, THEN conjunct1, rule_format, OF h2]
       price_failure_asymmetric [THEN conjunct2, THEN conjunct2, rule_format, OF h3] d
  show ?thesis by blast
qed

text \<open>
  C10. A USD price of exactly 0 is treated as a failed lookup. \<^verbatim>\<open>fetch_all_prices\<close> never
  stores the price 0 in the cache. When the oracle gives an oracle id the price 0, the
  lookup of each tracked symbol of that id on a fresh client returns None. Hence a
  zero-priced \<^verbatim>\<open>BAL\<close> gets the \<open>bal_max_apr\<close> substitution, and the reward of any
  other zero-priced tracked token is dropped.
\<close>

theorem zero_price_is_failure:
  "(\<forall>net m api s.
      (\<forall>s'. price_cache api s' \<noteq> Some 0) \<longrightarrow>
      price_cache (snd (fetch_all_prices net m api)) s \<noteq> Some 0)
   \<and> (\<forall>net api cg s.
      zero_priced net cg \<and> fresh api \<and> (s, cg) \<in> set COINGECKO_IDS \<longrightarrow>
      fst (get_token_price net s api) = None)
   \<and> (\<forall>net api p t bm.
      zero_priced net ''balancer'' \<and> fresh api \<and> 0 < t
        \<and> (\<exists>r \<in> set (ap_rewardData p). reward_symbol r = ''BAL'' \<and> 0 < reward_rate r) \<longrightarrow>
      (\<exists>d. fst (calculate_aura_apr net (Some p) t bm api) = Inr (Some d) \<and> bal_apr d = bm))
   \<and> (\<forall>net api cg p t bm xs r ys.
      zero_priced net cg \<and> fresh api \<and> (reward_symbol r, cg) \<in> set COINGECKO_IDS
        \<and> reward_symbol r \<noteq> ''BAL'' \<longrightarrow>
      fst (calculate_aura_apr net (Some (with_rewards p (xs @ r # ys))) t bm api) =
      fst (calculate_aura_apr net (Some (with_rewards p (xs @ ys))) t bm api))"
proof (intro conjI allI impI)
  fix net m and api :: AuraFinanceAPI and s
  assume "\<forall>s'. price_cache api s' \<noteq> Some 0"
  then show "price_cache (snd (fetch_all_prices net m api)) s \<noteq> Some 0"
    by (rule zero_never_cached)
next
  fix net api cg s
  assume "zero_priced net cg \<and> fresh api \<and> (s, cg) \<in> set COINGECKO_IDS"
  then show "fst (get_token_price net s api) = None"
    by (intro zero_priced_lookup [of net cg]) simp_all
next
  fix net api and p :: aura_pool and t bm :: real
  assume h: "zero_priced net ''balancer'' \<and> fresh api \<and> 0 < t
        \<and> (\<exists>r \<in> set (ap_rewardData p). reward_symbol r = ''BAL'' \<and> 0 < reward_rate r)"
  then have "fst (get_token_price net ''BAL'' api) = None"
    by (intro zero_priced_lookup [of net "''balancer''"]) (simp_all add: COINGECKO_IDS_def)
  then have "price_fails net api ''BAL''"
    by (simp add: price_fails_def truthy_def)
  with h show "\<exists>d. fst (calculate_aura_apr net (Some p) t bm api) = Inr (Some d) \<and> bal_apr d = bm"
    by (intro overlay_bal_substituted) simp_all
next
  fix net api cg and p :: aura_pool and t bm :: real and xs r ys
  assume h: "zero_priced net cg \<and> fresh api \<and> (reward_symbol r, cg) \<in> set COINGECKO_IDS
        \<and> reward_symbol r \<noteq> ''BAL''"
  then have "fst (get_token_price net (reward_symbol r) api) = None"
    by (intro zero_priced_lookup [of net cg]) simp_all
  then have "price_fails net api (reward_symbol r)"
    by (simp add: price_fails_def truthy_def)
  with h show "fst (calculate_aura_apr net (Some (with_rewards p (xs @ r # ys))) t bm api) =
      fst (calculate_aura_apr net (Some (with_rewards p (xs @ ys))) t bm api)"
    by (intro overlay_failed_dropped) simp_all
qed

theorem zero_price_is_failure_witness:
  "price_cache (snd (fetch_all_prices
       (example_net [] [(''aura-finance'', Some 2), (''balancer'', Some 0), (''gho'', Some 0)])
       3 new_aura_api)) ''BAL'' \<noteq> Some 0
   \<and> fst (get_token_price
       (example_net [] [(''aura-finance'', Some 2), (''balancer'', Some 0), (''gho'', Some 0)])
       ''BAL'' new_aura_api) = None
   \<and> (\<exists>d. fst (calculate_aura_apr
              (example_net [] [(''aura-finance'', Some 2), (''balancer'', Some 0), (''gho'', Some 0)])
              (Some (example_aura_pool [mk_reward ''BAL'' 18 1000000000000000,
                                        mk_reward ''AURA'' 18 1000000000000000]))
              1000000 5 new_aura_api) = Inr (Some d) \<and> bal_apr d = 5)
   \<and> fst (calculate_aura_apr
              (example_net [] [(''aura-finance'', Some 2), (''balancer'', Some 0), (''gho'', Some 0)])
              (Some (with_rewards (example_aura_pool [])
                 ([mk_reward ''BAL'' 18 1000000000000000] @ mk_reward ''GHO'' 18 7000000000000000
                    # [mk_reward ''AURA'' 18 1000000000000000])))
              1000000 5 new_aura_api)
     = fst (calculate_aura_apr
              (example_net [] [(''aura-finance'', Some 2), (''balancer'', Some 0), (''gho'', Some 0)])
              (Some (with_rewards (example_aura_pool [])
                 ([mk_reward ''BAL'' 18 1000000000000000] @ [mk_reward ''AURA'' 18 1000000000000000])))
              1000000 5 new_aura_api)"
proof -
  let ?n = "example_net [] [(''aura-finance'', Some 2), (''balancer'', Some 0), (''gho'', Some 0)]"
  let ?bal = "mk_reward ''BAL'' 18 1000000000000000"
  let ?aura = "mk_reward ''AURA'' 18 1000000000000000"
  let ?gho = "mk_reward ''GHO'' 18 7000000000000000"
  have f: "fresh new_aura_api"
    by (simp add: fresh_def new_aura_api_def)
  have zb: "zero_priced ?n ''balancer''" and zg: "zero_priced ?n ''gho''"
    by (simp_all add: zero_priced_def example_net_def)
  have h1: "\<forall>s'. price_cache new_aura_api s' \<noteq> Some 0"
    by (simp add: new_aura_api_def)
  have h2: "zero_priced ?n ''balancer'' \<and> fresh new_aura_api \<and> (''BAL'', ''balancer'') \<in> set COINGECKO_IDS"
    using f zb by (simp add: COINGECKO_IDS_def)
  have h3: "zero_priced ?n ''balancer'' \<and> fresh new_aura_api \<and> 0 < (1000000::real)
        \<and> (\<exists>r \<in> set (ap_rewardData (example_aura_pool [?bal, ?aura])).
              reward_symbol r = ''BAL'' \<and> 0 < reward_rate r)"
    using f zb by (simp add: example_aura_pool_def mk_reward_def reward_symbol_def
          reward_rate_def get_or_def float_or_0_def)
  have h4: "zero_priced ?n ''gho'' \<and> fresh new_aura_api
        \<and> (reward_symbol ?gho, ''gho'') \<in> set COINGECKO_IDS \<and> reward_symbol ?gho \<noteq> ''BAL''"
    using f zg by (simp add: COINGECKO_IDS_def mk_reward_def reward_symbol_def get_or_def)
  from zero_price_is_failure [THEN conjunct1, rule_format, OF h1 [rule_format]]
       zero_price_is_failure [THEN conjunct2, THEN conjunct1, rule_format, OF h2]
       zero_price_is_failure [THEN conjunct2, THEN conjunct2, THEN conjunct1, rule_format, OF h3]
       zero_price_is_failure [THEN conjunct2, THEN conjunct2, THEN conjunct2, rule_format, OF h4]
  show ?thesis by blast
qed

section \<open>The overlay fields of a parsed record\<close>

lemma calculate_aura_apr_empty_iff_pair:
  "calculate_aura_apr net (Some p) t bm api = (Inr x, api') \<Longrightarrow> (x = None) = (t \<le> 0)"
  by (rule calculate_aura_apr_empty_iff [of net p t bm api]) simp

lemma parse_pool_aura_presence:
  assumes "fst (parse_pool net api (Some pd) ch en) = Inr (Some r)"
  shows "(aura_apy r = None) =
           ((aura_tvl r = None \<and> aura_boost r = None \<and> aura_staking_contract r = None) \<or> tvl r \<le> 0)"
    and "(aura_tvl r = None) = (aura_boost r = None)"
    and "aura_staking_contract r \<noteq> None \<Longrightarrow> aura_tvl r \<noteq> None"
  using assms
  by (auto simp: parse_pool_def Let_def
           split: option.splits prod.splits sum.splits if_splits
           dest!: calculate_aura_apr_empty_iff_pair)

text \<open>
  C1, as the code has it. For every record that \<^verbatim>\<open>_parse_pool\<close> returns: \<open>aura_apy\<close> is
  absent if and only if \<open>aura_tvl\<close>, \<open>aura_boost\<close> and \<open>aura_staking_contract\<close> are all
  absent or \<open>tvl \<le> 0\<close>; \<open>aura_tvl\<close> and \<open>aura_boost\<close> are present together or absent
  together; and \<open>aura_staking_contract\<close> is present only with them.
\<close>

theorem aura_fields_presence:
  assumes "fst (parse_pool net api pd ch en) = Inr (Some r)"
  shows "(aura_apy r = None \<longleftrightarrow>
            (aura_tvl r = None \<and> aura_boost r = None \<and> aura_staking_contract r = None)
            \<or> tvl r \<le> 0)
       \<and> (aura_tvl r = None \<longleftrightarrow> aura_boost r = None)
       \<and> (aura_staking_contract r \<noteq> None \<longrightarrow> aura_tvl r \<noteq> None)"
proof -
  from assms obtain p where pd: "pd = Some p"
    by (cases pd) (simp_all add: parse_pool_None)
  from assms [unfolded pd] show ?thesis
    using parse_pool_aura_presence [of net api p ch en r] by blast
qed

text \<open>The definitions that evaluate \<^verbatim>\<open>_parse_pool\<close> on the example pool.\<close>

lemmas eval_parse =
  parse_pool_def Let_def find_pool_by_balancer_address_def get_pools_def SUBGRAPH_URLS_def
  lower_def lower_char_def calculate_aura_apr_def get_aura_tvl_def example_pool_def
  example_aura_pool_def apr_items_loop_def get_or_def float_or_0_def

text \<open>
  The claim as stated fails: with the overlay enabled, the overlay pool found and a tvl of
  0, the overlay APR is empty, so \<open>aura_apy\<close> stays absent while the other three fields
  are set.
\<close>

theorem aura_fields_counterexample:
  "\<exists>r. fst (parse_pool (example_net [] []) (Some new_aura_api) (Some (example_pool [] 0))
            ''ethereum'' True) = Inr (Some r)
       \<and> aura_apy r = None \<and> aura_tvl r = Some 0 \<and> aura_boost r = Some 2.5
       \<and> aura_staking_contract r = Some ''0x5take''
       \<and> \<not> (aura_apy r = None \<longleftrightarrow>
              aura_tvl r = None \<and> aura_boost r = None \<and> aura_staking_contract r = None)"
  by (simp add: eval_parse example_net_def new_aura_api_def)

theorem aura_fields_presence_witness:
  "\<exists>r. fst (parse_pool (example_net [mk_reward ''BAL'' 18 1000000000000000] [(''balancer'', Some 3)])
            (Some new_aura_api) (Some (example_pool [] 1000000)) ''ethereum'' True) = Inr (Some r)
       \<and> aura_apy r \<noteq> None \<and> aura_tvl r \<noteq> None \<and> aura_boost r \<noteq> None
       \<and> aura_staking_contract r \<noteq> None \<and> 0 < tvl r"
proof -
  let ?net = "example_net [mk_reward ''BAL'' 18 1000000000000000] [(''balancer'', Some 3)]"
  obtain r where h: "fst (parse_pool ?net (Some new_aura_api) (Some (example_pool [] 1000000))
                       ''ethereum'' True) = Inr (Some r)"
     and t: "tvl r = 1000000" and s: "aura_staking_contract r = Some ''0x5take''"
    by (simp add: eval_parse eval_price mk_reward_def reward_rate_def
          reward_symbol_def reward_decimals_def py_div_def power_int_def)
  from aura_fields_presence [OF h] h t s show ?thesis by auto
qed

section \<open>The history store\<close>

lemma py_slice_last:
  "0 < m \<Longrightarrow> py_slice_from (- m) xs = drop (length xs - nat m) xs"
proof -
  assume m: "0 < m"
  then have "nat (int (length xs) + - m) = length xs - nat m" by linarith
  with m show ?thesis by (simp add: py_slice_from_def)
qed


lemma append_one_other:
  "k' \<noteq> generate_pool_key r \<Longrightarrow> append_one now ms hp r k' = hp k'"
  by (simp add: append_one_def Let_def)


lemma foldl_append_one_other:
  "k' \<notin> generate_pool_key ` set rs \<Longrightarrow> foldl (append_one now ms) hp rs k' = hp k'"
  by (induction rs arbitrary: hp) (simp_all add: append_one_other)

lemma append_one_same:
  "h_snapshots (the (append_one now ms hp r (generate_pool_key r))) =
     (let xs = (case hp (generate_pool_key r) of Some slot \<Rightarrow> h_snapshots slot | None \<Rightarrow> [])
                @ [make_snapshot now r]
      in case ms of
           None \<Rightarrow> xs
         | Some m \<Rightarrow> if m \<noteq> 0 \<and> int (length xs) > m then py_slice_from (- m) xs else xs)"
  by (simp add: append_one_def Let_def split: option.splits)

lemma append_one_defined: "append_one now ms hp r (generate_pool_key r) \<noteq> None"
  by (simp add: append_one_def Let_def)

lemma history_after_append:
  "rs \<noteq> [] \<Longrightarrow>
   history_file (snd (append_history rs ms now st)) =
     Content ((case history_file st of Content h \<Rightarrow> h | Malformed \<Rightarrow> empty_history now
               | Missing \<Rightarrow> empty_history now)
       \<lparr>h_last_updated := now,
         h_pools := foldl (append_one now ms)
           (h_pools (case history_file st of Content h \<Rightarrow> h | Malformed \<Rightarrow> empty_history now
                     | Missing \<Rightarrow> empty_history now)) rs\<rparr>)"
  by (simp add: append_history_def Let_def)

lemma series_start:
  "(case h_pools (case history_file st of Content h \<Rightarrow> h | Malformed \<Rightarrow> empty_history now
                  | Missing \<Rightarrow> empty_history now) k of
      Some slot \<Rightarrow> h_snapshots slot | None \<Rightarrow> []) = series st k"
  by (simp add: series_def empty_history_def split: file_state.splits)

lemma series_append_one_same:
  "series (snd (append_history [r] ms now st)) (generate_pool_key r) =
     (let xs = series st (generate_pool_key r) @ [make_snapshot now r]
      in case ms of
           None \<Rightarrow> xs
         | Some m \<Rightarrow> if m \<noteq> 0 \<and> int (length xs) > m then py_slice_from (- m) xs else xs)"
proof -
  let ?h0 = "case history_file st of Content h \<Rightarrow> h | Malformed \<Rightarrow> empty_history now
             | Missing \<Rightarrow> empty_history now"
  let ?k = "generate_pool_key r"
  have "series (snd (append_history [r] ms now st)) ?k
        = h_snapshots (the (append_one now ms (h_pools ?h0) r ?k))"
    using append_one_defined [of now ms "h_pools ?h0" r]
    by (auto simp: series_def history_after_append)
  also have "\<dots> = (let xs = series st ?k @ [make_snapshot now r]
      in case ms of
           None \<Rightarrow> xs
         | Some m \<Rightarrow> if m \<noteq> 0 \<and> int (length xs) > m then py_slice_from (- m) xs else xs)"
    unfolding append_one_same series_start ..
  finally show ?thesis .
qed

lemma series_untouched:
  "k' \<notin> generate_pool_key ` set rs \<Longrightarrow>
   series (snd (append_history rs ms now st)) k' = series st k'"
proof (cases "rs = []")
  case True
  then show ?thesis by (simp add: append_history_def)
next
  case False
  assume "k' \<notin> generate_pool_key ` set rs"
  then show ?thesis
    by (simp add: series_def [of "snd _"] history_after_append [OF False]
          foldl_append_one_other series_start)
qed


lemma series_append_each:
  "\<forall>c \<in> set calls. generate_pool_key (fst c) = k \<Longrightarrow>
   series (append_each calls st) k = series st k @ map (\<lambda>(r, now). make_snapshot now r) calls"
  unfolding append_each_def
proof (induction calls arbitrary: st)
  case Nil
  then show ?case by simp
next
  case (Cons c calls)
  obtain r now where c: "c = (r, now)" by (cases c)
  from Cons.prems have k: "generate_pool_key r = k" by (simp add: c)
  have "series (snd (append_history [r] None now st)) k = series st k @ [make_snapshot now r]"
    using series_append_one_same [of r None now st] by (simp add: k)
  with Cons.IH [of "snd (append_history [r] None now st)"] Cons.prems
  show ?case by (simp add: c)
qed

lemma series_trim:
  "0 < m \<Longrightarrow>
   series (snd (append_history [r] (Some m) now st)) (generate_pool_key r) =
     drop (length (series st (generate_pool_key r)) + 1 - nat m)
       (series st (generate_pool_key r) @ [make_snapshot now r])"
proof -
  assume m: "0 < m"
  let ?xs = "series st (generate_pool_key r) @ [make_snapshot now r]"
  have "series (snd (append_history [r] (Some m) now st)) (generate_pool_key r)
        = (if int (length ?xs) > m then py_slice_from (- m) ?xs else ?xs)"
    using m by (simp add: series_append_one_same Let_def)
  also have "\<dots> = drop (length ?xs - nat m) ?xs"
    using m by (simp add: py_slice_last)
  finally show ?thesis by simp
qed

text \<open>
  C6, as the code has it. Successive \<^verbatim>\<open>append_history\<close> calls, each with one record of
  the same key, extend that key's series by one entry per call, in call order; from a store
  without a history file the series has exactly N entries after N calls. A following call
  with \<open>max_snapshots = K\<close>, \<open>0 < K < N + 1\<close>, leaves exactly the most recent K entries
  (the oldest are dropped first). The series of a key that no record of the call has is
  unchanged.
\<close>

theorem history_append_and_trim:
  "(\<forall>calls st k.
      (\<forall>c \<in> set calls. generate_pool_key (fst c) = k) \<longrightarrow>
      series (append_each calls st) k
        = series st k @ map (\<lambda>(r, now). make_snapshot now r) calls)
   \<and> (\<forall>calls k.
      (\<forall>c \<in> set calls. generate_pool_key (fst c) = k) \<longrightarrow>
      length (series (append_each calls empty_store) k) = length calls)
   \<and> (\<forall>K r now st.
      0 < K \<and> K < int (length (series st (generate_pool_key r))) + 1 \<longrightarrow>
      series (snd (append_history [r] (Some K) now st)) (generate_pool_key r)
        = drop (length (series st (generate_pool_key r)) + 1 - nat K)
            (series st (generate_pool_key r) @ [make_snapshot now r])
      \<and> length (series (snd (append_history [r] (Some K) now st)) (generate_pool_key r)) = nat K)
   \<and> (\<forall>rs ms now st k'.
      k' \<notin> generate_pool_key ` set rs \<longrightarrow>
      series (snd (append_history rs ms now st)) k' = series st k')"
proof (intro conjI allI impI)
  fix calls :: "(PoolData \<times> string) list" and st k
  assume "\<forall>c \<in> set calls. generate_pool_key (fst c) = k"
  then show "series (append_each calls st) k
        = series st k @ map (\<lambda>(r, now). make_snapshot now r) calls"
    by (rule series_append_each)
next
  fix calls :: "(PoolData \<times> string) list" and k
  assume "\<forall>c \<in> set calls. generate_pool_key (fst c) = k"
  from series_append_each [OF this, of empty_store]
  show "length (series (append_each calls empty_store) k) = length calls"
    by (simp add: series_def empty_store_def)
next
  fix K and r :: PoolData and now st
  assume h: "0 < K \<and> K < int (length (series st (generate_pool_key r))) + 1"
  then show "series (snd (append_history [r] (Some K) now st)) (generate_pool_key r)
        = drop (length (series st (generate_pool_key r)) + 1 - nat K)
            (series st (generate_pool_key r) @ [make_snapshot now r])"
    by (simp add: series_trim)
  from h show "length (series (snd (append_history [r] (Some K) now st)) (generate_pool_key r)) = nat K"
    by (simp add: series_trim) linarith
next
  fix rs :: "PoolData list" and ms now st k'
  assume "k' \<notin> generate_pool_key ` set rs"
  then show "series (snd (append_history rs ms now st)) k' = series st k'"
    by (rule series_untouched)
qed


lemma series_empty_store: "series empty_store k = []"
  by (simp add: series_def empty_store_def)

theorem history_append_and_trim_witness:
  "series (append_each [(example_record, ''2024-05-01T06:00:00Z''),
                        (example_record, ''2024-05-02T06:00:00Z'')] empty_store)
      (generate_pool_key example_record)
     = [make_snapshot ''2024-05-01T06:00:00Z'' example_record,
        make_snapshot ''2024-05-02T06:00:00Z'' example_record]
   \<and> length (series (append_each [(example_record, ''2024-05-01T06:00:00Z''),
                        (example_record, ''2024-05-02T06:00:00Z'')] empty_store)
      (generate_pool_key example_record)) = 2
   \<and> series (snd (append_history [example_record] (Some 2) ''2024-05-03T06:00:00Z''
        (append_each [(example_record, ''2024-05-01T06:00:00Z''),
                      (example_record, ''2024-05-02T06:00:00Z'')] empty_store)))
      (generate_pool_key example_record)
     = [make_snapshot ''2024-05-02T06:00:00Z'' example_record,
        make_snapshot ''2024-05-03T06:00:00Z'' example_record]
   \<and> series (snd (append_history [example_record] (Some 2) ''2024-05-03T06:00:00Z''
        (append_each [(example_record\<lparr>name := ''other''\<rparr>, ''2024-05-01T06:00:00Z'')] empty_store)))
      (generate_pool_key (example_record\<lparr>name := ''other''\<rparr>))
     = [make_snapshot ''2024-05-01T06:00:00Z'' (example_record\<lparr>name := ''other''\<rparr>)]"
proof -
  let ?k = "generate_pool_key example_record"
  let ?calls = "[(example_record, ''2024-05-01T06:00:00Z''), (example_record, ''2024-05-02T06:00:00Z'')]"
  let ?st = "append_each ?calls empty_store"
  let ?o = "example_record\<lparr>name := ''other''\<rparr>"
  let ?st' = "append_each [(?o, ''2024-05-01T06:00:00Z'')] empty_store"
  have h1: "\<forall>c \<in> set ?calls. generate_pool_key (fst c) = ?k" by simp
  note a = history_append_and_trim [THEN conjunct1, THEN spec [where x = ?calls],
             THEN spec [where x = empty_store], THEN spec [where x = ?k], THEN mp, OF h1]
  note b = history_append_and_trim [THEN conjunct2, THEN conjunct1,
             THEN spec [where x = ?calls], THEN spec [where x = ?k], THEN mp, OF h1]
  have s: "series ?st ?k = [make_snapshot ''2024-05-01T06:00:00Z'' example_record,
        make_snapshot ''2024-05-02T06:00:00Z'' example_record]"
    using a by (simp add: series_empty_store)
  have h3: "0 < (2::int) \<and> 2 < int (length (series ?st ?k)) + 1"
    by (simp add: s)
  note c = history_append_and_trim [THEN conjunct2, THEN conjunct2, THEN conjunct1,
             THEN spec [where x = 2], THEN spec [where x = example_record],
             THEN spec [where x = "''2024-05-03T06:00:00Z''"], THEN spec [where x = ?st],
             THEN mp, OF h3, THEN conjunct1]
  have h4: "generate_pool_key ?o \<notin> generate_pool_key ` set [example_record]"
    by (simp add: generate_pool_key_def example_record_def lower_def lower_char_def
          is_lower_alnum_def strip_underscores_def)
  note d = history_append_and_trim [THEN conjunct2, THEN conjunct2, THEN conjunct2,
             THEN spec [where x = "[example_record]"], THEN spec [where x = "Some 2"],
             THEN spec [where x = "''2024-05-03T06:00:00Z''"], THEN spec [where x = ?st'],
             THEN spec [where x = "generate_pool_key ?o"], THEN mp, OF h4]
  have h5: "\<forall>c \<in> set [(?o, ''2024-05-01T06:00:00Z'')]. generate_pool_key (fst c) = generate_pool_key ?o"
    by simp
  note e = history_append_and_trim [THEN conjunct1,
             THEN spec [where x = "[(?o, ''2024-05-01T06:00:00Z'')]"],
             THEN spec [where x = empty_store], THEN spec [where x = "generate_pool_key ?o"],
             THEN mp, OF h5]
  show ?thesis
    using s b c d e by (simp add: series_empty_store)
qed

text \<open>
  The claim as stated fails for \<open>K = 0\<close>: \<^verbatim>\<open>if max_snapshots:\<close> takes 0 for no limit, so
  after one call, a call with \<open>max_snapshots = 0\<close> leaves two entries, not none.
\<close>

theorem zero_max_snapshots_counterexample:
  "series (snd (append_history [example_record] (Some 0) ''2024-05-02T06:00:00Z''
        (append_each [(example_record, ''2024-05-01T06:00:00Z'')] empty_store)))
      (generate_pool_key example_record)
     = [make_snapshot ''2024-05-01T06:00:00Z'' example_record,
        make_snapshot ''2024-05-02T06:00:00Z'' example_record]
   \<and> (0::int) < int (length (series
          (append_each [(example_record, ''2024-05-01T06:00:00Z'')] empty_store)
          (generate_pool_key example_record))) + 1
   \<and> length (series (snd (append_history [example_record] (Some 0) ''2024-05-02T06:00:00Z''
        (append_each [(example_record, ''2024-05-01T06:00:00Z'')] empty_store)))
      (generate_pool_key example_record)) \<noteq> nat 0"
proof -
  have "series (append_each [(example_record, ''2024-05-01T06:00:00Z'')] empty_store)
          (generate_pool_key example_record)
        = [make_snapshot ''2024-05-01T06:00:00Z'' example_record]"
    using series_append_each [of "[(example_record, ''2024-05-01T06:00:00Z'')]"
            "generate_pool_key example_record" empty_store]
    by (simp add: series_empty_store)
  then show ?thesis
    by (simp add: series_append_one_same)
qed

section \<open>The snapshot store\<close>

lemma json_round_trip: "json_to_pool (pool_to_json r) = Some (as_serialized r)"
  by (cases r) (simp add: json_to_pool_def pool_to_json_def as_serialized_def get_or_simps)

lemma map_filter_Some: "List.map_filter (\<lambda>x. Some (f x)) xs = map f xs"
  by (induction xs) (simp_all add: List.map_filter_simps)

lemma load_save:
  "rs \<noteq> [] \<Longrightarrow> load (snd (save rs now st)) = map as_serialized rs"
proof -
  assume "rs \<noteq> []"
  then have "load (snd (save rs now st)) = List.map_filter json_to_pool (map pool_to_json rs)"
    by (simp add: load_def save_def Let_def)
  also have "\<dots> = List.map_filter (\<lambda>r. Some (as_serialized r)) rs"
    by (simp add: List.map_filter_def json_round_trip comp_def)
  finally show ?thesis by (simp add: map_filter_Some)
qed

lemma round_half_even_int: "round_half_even (of_int k) = k"
  by (simp add: round_half_even_def)

lemma py_round_idem: "py_round (py_round x n) n = py_round x n"
  by (simp add: py_round_def round_half_even_int)

lemma py_round_0: "py_round 0 n = 0"
  by (simp add: py_round_def round_half_even_def)

lemma as_serialized_idem: "as_serialized (as_serialized r) = as_serialized r"
  by (cases r) (auto simp: as_serialized_def py_round_idem py_round_0 comp_def option.map_comp)


text \<open>
  C5, as the code has it. For every non-empty record list, \<^verbatim>\<open>load\<close> after \<^verbatim>\<open>save\<close>
  returns the records as serialized: \<open>tvl\<close> rounded to 2 decimals, \<open>base_apy\<close>, the two
  \<open>bal_rewards_apy\<close> figures, \<open>total_apy\<close> and \<open>aura_apy\<close> rounded to 4, and \<open>aura_tvl\<close>
  rounded to 2 when \<open>aura_apy\<close> is present, absent otherwise. Rounding is the only other
  change: a record that is already as serialized comes back as it is.
\<close>

theorem load_after_save:
  "(\<forall>rs now st. rs \<noteq> [] \<longrightarrow> load (snd (save rs now st)) = map as_serialized rs)
   \<and> (\<forall>r. tvl (as_serialized r) = py_round (tvl r) 2
         \<and> base_apy (as_serialized r) = py_round (base_apy r) 4
         \<and> bal_rewards_apy (as_serialized r) =
             [if bal_rewards_apy r \<noteq> [] then py_round (bal_rewards_apy r ! 0) 4 else 0,
              if length (bal_rewards_apy r) > 1 then py_round (bal_rewards_apy r ! 1) 4 else 0]
         \<and> total_apy (as_serialized r) = py_round (total_apy r) 4
         \<and> aura_apy (as_serialized r) = map_option (\<lambda>v. py_round v 4) (aura_apy r)
         \<and> aura_tvl (as_serialized r) =
             (if aura_apy r = None then None else map_option (\<lambda>v. py_round v 2) (aura_tvl r)))
   \<and> (\<forall>r. as_serialized (as_serialized r) = as_serialized r)"
proof (intro conjI allI impI)
  fix rs :: "PoolData list" and now st
  assume "rs \<noteq> []"
  then show "load (snd (save rs now st)) = map as_serialized rs"
    by (rule load_save)
next
  fix r
  show "as_serialized (as_serialized r) = as_serialized r"
    by (rule as_serialized_idem)
qed (simp_all add: as_serialized_def)

theorem load_after_save_witness:
  "load (snd (save [example_record, example_record\<lparr>aura_apy := Some 7.123456\<rparr>]
             ''2024-05-01T06:00:00Z'' empty_store))
     = [as_serialized example_record,
        as_serialized (example_record\<lparr>aura_apy := Some 7.123456\<rparr>)]
   \<and> base_apy (as_serialized example_record) = 1.2346
   \<and> total_apy (as_serialized example_record) = 3.2346
   \<and> aura_apy (as_serialized (example_record\<lparr>aura_apy := Some 7.123456\<rparr>)) = Some 7.1235
   \<and> aura_tvl (as_serialized (example_record\<lparr>aura_apy := Some 7.123456\<rparr>)) = Some 0"
proof -
  have h: "[example_record, example_record\<lparr>aura_apy := Some 7.123456\<rparr>] \<noteq> []" by simp
  note a = load_after_save [THEN conjunct1, rule_format, OF h]
  note b = load_after_save [THEN conjunct2, THEN conjunct1, rule_format]
  have c: "base_apy (as_serialized example_record) = 1.2346"
          "total_apy (as_serialized example_record) = 3.2346"
          "aura_apy (as_serialized (example_record\<lparr>aura_apy := Some 7.123456\<rparr>)) = Some 7.1235"
          "aura_tvl (as_serialized (example_record\<lparr>aura_apy := Some 7.123456\<rparr>)) = Some 0"
    by (simp_all add: b example_record_def py_round_def round_half_even_def)
  have a': "load (snd (save [example_record, example_record\<lparr>aura_apy := Some 7.123456\<rparr>]
             ''2024-05-01T06:00:00Z'' empty_store))
     = [as_serialized example_record,
        as_serialized (example_record\<lparr>aura_apy := Some 7.123456\<rparr>)]"
    unfolding a by (simp only: list.map)
  from a' c show ?thesis by (intro conjI)
qed

text \<open>
  The claim as stated fails: the record parsed for a pool with a tvl of 0 and an overlay
  pool has \<open>aura_apy\<close> absent and \<open>aura_tvl = 5\<close>; it is saved with a null overlay block
  and loaded with \<open>aura_tvl\<close> absent.
\<close>

theorem load_after_save_counterexample:
  "\<exists>r l. fst (parse_pool (example_net [] []) (Some new_aura_api) (Some no_shares_pool)
               ''ethereum'' True) = Inr (Some r)
        \<and> load (snd (save [r] ''2024-05-01T06:00:00Z'' empty_store)) = [l]
        \<and> aura_tvl r = Some 5 \<and> aura_tvl l = None
        \<and> aura_tvl l \<noteq> map_option (\<lambda>v. py_round v 2) (aura_tvl r)"
proof -
  obtain r where r: "fst (parse_pool (example_net [] []) (Some new_aura_api) (Some no_shares_pool)
               ''ethereum'' True) = Inr (Some r)"
    and t: "aura_tvl r = Some 5" and a: "aura_apy r = None"
    by (simp add: eval_parse no_shares_pool_def example_net_def new_aura_api_def)
  have "load (snd (save [r] ''2024-05-01T06:00:00Z'' empty_store)) = [as_serialized r]"
    by (simp add: load_save)
  moreover have "aura_tvl (as_serialized r) = None"
    by (simp add: as_serialized_def a)
  ultimately show ?thesis
    using r t by simp
qed

section \<open>The pool key\<close>

lemma underscore_not_alnum: "\<not> is_lower_alnum (CHR ''_'')"
  by (simp add: is_lower_alnum_def)

lemma split_fields_nonempty: "split_fields s \<noteq> []"
  by (induction s) (auto split: list.splits)

lemma rstrip_Cons_other: "c \<noteq> CHR ''_'' \<Longrightarrow> rstrip (c # xs) = c # rstrip xs"
  by (cases "\<exists>x \<in> set (rev xs). x \<noteq> CHR ''_''")
     (auto simp: rstrip_def dropWhile_append)

lemma rstrip_Cons_us:
  "rstrip (CHR ''_'' # xs) = (if rstrip xs = [] then [] else CHR ''_'' # rstrip xs)"
  by (cases "\<exists>x \<in> set (rev xs). x \<noteq> CHR ''_''")
     (auto simp: rstrip_def dropWhile_append dropWhile_eq_Nil_conv)

lemma alnum_words_Cons_nonalnum: "\<not> is_lower_alnum c \<Longrightarrow> alnum_words (c # cs) = alnum_words cs"
  by (simp add: alnum_words_def)

lemma alnum_words_dropWhile: "alnum_words (dropWhile (\<lambda>d. \<not> is_lower_alnum d) s) = alnum_words s"
  by (induction s) (simp_all add: alnum_words_Cons_nonalnum)

lemma alnum_words_Cons_alnum:
  "is_lower_alnum c \<Longrightarrow>
   alnum_words (c # cs) =
     (case cs of
        [] \<Rightarrow> [[c]]
      | d # ds \<Rightarrow> if is_lower_alnum d
                 then (c # hd (alnum_words cs)) # tl (alnum_words cs)
                 else [c] # alnum_words cs)"
  using split_fields_nonempty [of cs]
  by (cases cs) (auto simp: alnum_words_def split: list.splits)

lemma alnum_words_nonempty: "is_lower_alnum c \<Longrightarrow> alnum_words (c # cs) \<noteq> []"
  by (auto simp: alnum_words_Cons_alnum split: list.splits)

lemma alnum_words_no_empty: "[] \<notin> set (alnum_words s)"
  by (simp add: alnum_words_def)

lemma join_Cons_char: "ws \<noteq> [] \<Longrightarrow> join_underscore ((c # hd ws) # tl ws) = c # join_underscore ws"
  by (cases ws rule: join_underscore.cases) simp_all

lemma join_single: "join_underscore ([c] # ws) = (if ws = [] then [c] else c # CHR ''_'' # join_underscore ws)"
  by (cases ws) simp_all

lemma join_Nil_iff: "[] \<notin> set ws \<Longrightarrow> (join_underscore ws = []) = (ws = [])"
  by (cases ws rule: join_underscore.cases) auto


lemma re_sub_start:
  "s = [] \<or> is_lower_alnum (hd s) \<Longrightarrow>
   re_sub_nonalnum s = [] \<or> hd (re_sub_nonalnum s) \<noteq> CHR ''_''"
  using underscore_not_alnum by (cases s) auto

lemma dropWhile_start:
  "dropWhile (\<lambda>d. \<not> is_lower_alnum d) s = [] \<or> is_lower_alnum (hd (dropWhile (\<lambda>d. \<not> is_lower_alnum d) s))"
  using hd_dropWhile [of "\<lambda>d. \<not> is_lower_alnum d" s] by auto

lemma lstrip_re_sub:
  "dropWhile (\<lambda>c. c = CHR ''_'') (re_sub_nonalnum s) = re_sub_nonalnum (dropWhile (\<lambda>d. \<not> is_lower_alnum d) s)"
proof (cases s)
  case Nil
  then show ?thesis by simp
next
  case (Cons c cs)
  show ?thesis
  proof (cases "is_lower_alnum c")
    case True
    with underscore_not_alnum have "c \<noteq> CHR ''_''" by auto
    with True show ?thesis by (simp add: Cons)
  next
    case False
    let ?t = "dropWhile (\<lambda>d. \<not> is_lower_alnum d) cs"
    from re_sub_start [OF dropWhile_start [of cs]]
    have "dropWhile (\<lambda>c. c = CHR ''_'') (re_sub_nonalnum ?t) = re_sub_nonalnum ?t"
      by (cases "re_sub_nonalnum ?t") auto
    with False show ?thesis by (simp add: Cons)
  qed
qed

lemma rstrip_re_sub:
  "rstrip (re_sub_nonalnum s) =
     (case s of
        [] \<Rightarrow> []
      | c # cs \<Rightarrow>
          if is_lower_alnum c then join_underscore (alnum_words s)
          else if alnum_words s = [] then [] else CHR ''_'' # join_underscore (alnum_words s))"
proof (induction s rule: re_sub_nonalnum.induct)
  case 1
  then show ?case by (simp add: rstrip_def)
next
  case (2 c cs)
  show ?case
  proof (cases "is_lower_alnum c")
    case True
    with underscore_not_alnum have c: "c \<noteq> CHR ''_''" by auto
    have r: "rstrip (re_sub_nonalnum (c # cs)) = c # rstrip (re_sub_nonalnum cs)"
      using True c by (simp add: rstrip_Cons_other)
    show ?thesis
    proof (cases cs)
      case Nil
      with True r show ?thesis
        by (simp add: rstrip_def alnum_words_Cons_alnum)
    next
      case (Cons d ds)
      show ?thesis
      proof (cases "is_lower_alnum d")
        case d: True
        then have ne: "alnum_words cs \<noteq> []"
          unfolding Cons by (rule alnum_words_nonempty)
        from "2.IH"(1) [OF True] d have "rstrip (re_sub_nonalnum cs) = join_underscore (alnum_words cs)"
          by (simp add: Cons)
        moreover have "alnum_words (c # cs) = (c # hd (alnum_words cs)) # tl (alnum_words cs)"
          using alnum_words_Cons_alnum [OF True, of cs] d by (simp add: Cons)
        ultimately show ?thesis
          using r True by (simp add: join_Cons_char [OF ne])
      next
        case d: False
        from "2.IH"(1) [OF True] d
        have "rstrip (re_sub_nonalnum cs)
              = (if alnum_words cs = [] then [] else CHR ''_'' # join_underscore (alnum_words cs))"
          by (simp add: Cons)
        moreover have "alnum_words (c # cs) = [c] # alnum_words cs"
          using alnum_words_Cons_alnum [OF True, of cs] d by (simp add: Cons)
        ultimately show ?thesis
          using r True by (simp add: join_single)
      qed
    qed
  next
    case False
    let ?t = "dropWhile (\<lambda>d. \<not> is_lower_alnum d) cs"
    have ih: "rstrip (re_sub_nonalnum ?t) = join_underscore (alnum_words ?t)"
    proof (cases ?t)
      case Nil
      show ?thesis unfolding Nil by (simp add: rstrip_def alnum_words_def)
    next
      case (Cons a list)
      with dropWhile_start [of cs] have "is_lower_alnum a" by simp
      with "2.IH"(2) [OF False] show ?thesis
        unfolding Cons by simp
    qed
    have w: "alnum_words (c # cs) = alnum_words ?t"
      using False by (simp add: alnum_words_Cons_nonalnum alnum_words_dropWhile)
    have "rstrip (re_sub_nonalnum (c # cs)) = rstrip (CHR ''_'' # re_sub_nonalnum ?t)"
      using False by simp
    also have "\<dots> = (if join_underscore (alnum_words ?t) = [] then []
                      else CHR ''_'' # join_underscore (alnum_words ?t))"
      by (simp add: rstrip_Cons_us ih)
    finally show ?thesis
      using False by (simp add: w join_Nil_iff [OF alnum_words_no_empty])
  qed
qed

lemma slug_words:
  "strip_underscores (re_sub_nonalnum s) = join_underscore (alnum_words s)"
proof -
  let ?t = "dropWhile (\<lambda>d. \<not> is_lower_alnum d) s"
  have "strip_underscores (re_sub_nonalnum s) = rstrip (re_sub_nonalnum ?t)"
    by (simp add: strip_underscores_def rstrip_def lstrip_re_sub)
  also have "\<dots> = join_underscore (alnum_words ?t)"
  proof (cases ?t)
    case Nil
    show ?thesis unfolding Nil by (simp add: rstrip_def alnum_words_def)
  next
    case (Cons a list)
    with dropWhile_start [of s] have "is_lower_alnum a" by simp
    then show ?thesis
      unfolding Cons using rstrip_re_sub [of "a # list"] by simp
  qed
  finally show ?thesis by (simp add: alnum_words_dropWhile)
qed

lemma split_fields_alnum: "\<forall>w \<in> set (split_fields s). \<forall>c \<in> set w. is_lower_alnum c"
  by (induction s) (auto split: list.splits)

lemma alnum_words_alnum: "w \<in> set (alnum_words s) \<Longrightarrow> c \<in> set w \<Longrightarrow> is_lower_alnum c"
  using split_fields_alnum [of s] by (auto simp: alnum_words_def)

lemma split_fields_append:
  "\<forall>c \<in> set w. is_lower_alnum c \<Longrightarrow>
   split_fields (w @ t) = (w @ hd (split_fields t)) # tl (split_fields t)"
  using split_fields_nonempty [of t]
  by (induction w) (auto split: list.splits)

lemma alnum_words_join:
  "[] \<notin> set ws \<Longrightarrow> \<forall>w \<in> set ws. \<forall>c \<in> set w. is_lower_alnum c \<Longrightarrow>
   alnum_words (join_underscore ws) = ws"
proof (induction ws rule: join_underscore.induct)
  case 1
  then show ?case by (simp add: alnum_words_def)
next
  case (2 w)
  then show ?case
    using split_fields_append [of w "[]"] by (simp add: alnum_words_def)
next
  case (3 w v ws)
  from "3.prems" have ih: "alnum_words (join_underscore (v # ws)) = v # ws"
    by (intro "3.IH") auto
  from "3.prems" have "split_fields (w @ CHR ''_'' # join_underscore (v # ws))
        = w # split_fields (join_underscore (v # ws))"
    using split_fields_append [of w "CHR ''_'' # join_underscore (v # ws)"]
    by (simp add: underscore_not_alnum)
  with "3.prems" ih show ?case
    by (auto simp: alnum_words_def)
qed

lemma lower_char_alnum: "is_lower_alnum c \<Longrightarrow> lower_char c = c"
  by (simp add: is_lower_alnum_def) (elim disjE; simp add: lower_char_def)

lemma lower_char_underscore: "lower_char (CHR ''_'') = CHR ''_''"
  by (simp add: lower_char_def)

lemma lower_join:
  "\<forall>w \<in> set ws. \<forall>c \<in> set w. is_lower_alnum c \<Longrightarrow>
   lower (join_underscore ws) = join_underscore ws"
  by (induction ws rule: join_underscore.induct)
     (simp_all add: lower_def lower_char_alnum lower_char_underscore map_idI)

lemma spec_slug_idem: "spec_slug (spec_slug s) = spec_slug s"
proof -
  let ?ws = "alnum_words (lower s)"
  have a: "\<forall>w \<in> set ?ws. \<forall>c \<in> set w. is_lower_alnum c"
    using alnum_words_alnum by blast
  have "alnum_words (lower (join_underscore ?ws)) = ?ws"
    by (simp add: lower_join [OF a] alnum_words_join [OF alnum_words_no_empty a])
  then show ?thesis by (simp add: spec_slug_def)
qed

lemma generate_pool_key_slug:
  "generate_pool_key pool = chain pool @ ''_'' @ spec_slug (name pool)"
  by (simp add: generate_pool_key_def spec_slug_def slug_words Let_def)

lemma spec_slug_code: "spec_slug s = strip_underscores (re_sub_nonalnum (lower s))"
  by (simp add: spec_slug_def slug_words)

text \<open>The definitions that evaluate a key on a concrete record.\<close>

lemmas eval_key =
  generate_pool_key_def spec_pool_key_def spec_slug_code example_record_def Let_def
  lower_def lower_char_def is_lower_alnum_def strip_underscores_def

text \<open>
  C4, as the code has it. The history key of a record is its chain as stored (not
  lowercased), an underscore, and the slug of its name: the name lowercased, every run of
  non-alphanumeric characters collapsed to one underscore, leading and trailing underscores
  stripped. It is the key of the specification whenever the chain is lowercase; the key of
  chain \<open>ethereum\<close> and name \<open>Wrapped  ETH / USDC!!\<close> is \<open>ethereum_wrapped_eth_usdc\<close>;
  and a record whose name is already a slug keeps its key.
\<close>

theorem pool_key_derivation:
  "(\<forall>pool. generate_pool_key pool = chain pool @ ''_'' @ spec_slug (name pool))
   \<and> (\<forall>pool. lower (chain pool) = chain pool \<longrightarrow> generate_pool_key pool = spec_pool_key pool)
   \<and> generate_pool_key
        (example_record\<lparr>chain := ''ethereum'', name := ''Wrapped  ETH / USDC!!''\<rparr>)
      = ''ethereum_wrapped_eth_usdc''
   \<and> (\<forall>pool. generate_pool_key (pool\<lparr>name := spec_slug (name pool)\<rparr>) = generate_pool_key pool)"
proof (intro conjI allI impI)
  fix pool
  show "generate_pool_key pool = chain pool @ ''_'' @ spec_slug (name pool)"
    by (rule generate_pool_key_slug)
  show "generate_pool_key (pool\<lparr>name := spec_slug (name pool)\<rparr>) = generate_pool_key pool"
    by (simp add: generate_pool_key_slug spec_slug_idem)
next
  fix pool :: PoolData
  assume "lower (chain pool) = chain pool"
  then show "generate_pool_key pool = spec_pool_key pool"
    by (simp add: generate_pool_key_slug spec_pool_key_def)
next
  show "generate_pool_key
        (example_record\<lparr>chain := ''ethereum'', name := ''Wrapped  ETH / USDC!!''\<rparr>)
      = ''ethereum_wrapped_eth_usdc''"
    by (simp add: eval_key)
qed

theorem pool_key_derivation_witness:
  "lower (chain example_record) = chain example_record
   \<and> generate_pool_key example_record = spec_pool_key example_record
   \<and> spec_pool_key example_record = ''ethereum_wrapped_eth_usdc''
   \<and> generate_pool_key (example_record\<lparr>name := ''wrapped_eth_usdc''\<rparr>)
      = ''ethereum_wrapped_eth_usdc''"
proof -
  have h: "lower (chain example_record) = chain example_record"
    by (simp add: example_record_def lower_def lower_char_def)
  note a = pool_key_derivation [THEN conjunct2, THEN conjunct1, THEN spec [where x = example_record],
             THEN mp, OF h]
  have b: "spec_pool_key example_record = ''ethereum_wrapped_eth_usdc''"
    by (simp add: eval_key)
  have c: "spec_slug (name example_record) = ''wrapped_eth_usdc''"
    by (simp add: eval_key)
  note d = pool_key_derivation [THEN conjunct2, THEN conjunct2, THEN conjunct2,
             THEN spec [where x = example_record]]
  from h a b d show ?thesis by (simp add: c)
qed

text \<open>
  The claim as stated fails: the chain is not lowercased, so the key of chain
  \<open>Ethereum\<close> starts with the capital.
\<close>

theorem uppercase_chain_counterexample:
  "generate_pool_key (example_record\<lparr>chain := ''Ethereum'', name := ''Wrapped  ETH / USDC!!''\<rparr>)
     = ''Ethereum_wrapped_eth_usdc''
   \<and> spec_pool_key (example_record\<lparr>chain := ''Ethereum'', name := ''Wrapped  ETH / USDC!!''\<rparr>)
     = ''ethereum_wrapped_eth_usdc''
   \<and> generate_pool_key (example_record\<lparr>chain := ''Ethereum'', name := ''Wrapped  ETH / USDC!!''\<rparr>)
     \<noteq> ''ethereum_wrapped_eth_usdc''"
  by (simp add: eval_key)

end
